theory Spec2Isabelle
  imports Main
begin

section \<open>Data model of the [incr Tcl] built-in methods\<close>

text \<open>
  The development embeds \<^verbatim>\<open>generic/itclBuiltin.c\<close> and
  \<^verbatim>\<open>generic/itclWidgetCmd.c\<close>. The commands of these files work on the class,
  member and object records of \<^verbatim>\<open>itclInt.h\<close> and on the state of the Tcl
  interpreter. Tcl completion codes are a datatype, Tcl objects are strings or lists.
  A Tcl hash table is the list of its entries, a lookup is \<^const>\<open>map_of\<close>. The tables
  of functions, components and resolved names are only looked up. The variable table
  of a class is also enumerated (\<^verbatim>\<open>Tcl_FirstHashEntry\<close>, \<^verbatim>\<open>Tcl_NextHashEntry\<close>):
  its list holds the entries in the order of that enumeration, which goes through the
  buckets of the table and is not the order in which the entries were created.
\<close>

datatype retcode = TCL_OK | TCL_ERROR | TCL_RETURN | TCL_BREAK | TCL_CONTINUE

datatype tclObj = Str string | Lst "tclObj list"

text \<open>
  What a C run can do besides returning a completion code: read past the end of a
  string, fail an \<^verbatim>\<open>assert\<close>, or follow a NULL pointer.
\<close>

datatype fault = OutOfBounds | AssertFailed | NullDeref

datatype protection = ITCL_PUBLIC | ITCL_PROTECTED | ITCL_PRIVATE

text \<open>
  The flag bits are macros of \<^verbatim>\<open>itclInt.h\<close>, which is not among the sources; only
  their being distinct bits matters, so a flag word is the set of the bits that are on:
  \<^verbatim>\<open>flags & F\<close> is membership and \<^verbatim>\<open>flags |= F\<close> is insertion.
\<close>

datatype classFlag =
  ITCL_IS_CLASS | ITCL_TYPE | ITCL_WIDGET | ITCL_WIDGETADAPTOR
  | ITCL_WIDGET_FRAME | ITCL_WIDGET_TOPLEVEL

datatype memberFlag = ITCL_CONSTRUCTOR | ITCL_DESTRUCTOR | ITCL_COMMON

record itclMemberCode =
  mc_implemented :: bool
  mc_bodyPtr :: string

text \<open>
  A member refers to its declaring class through \<^verbatim>\<open>iclsPtr\<close>; the commands only read
  that class's fully-qualified name (which also names its namespace), so the reference
  is kept as that name.
\<close>

record itclMemberFunc =
  im_namePtr :: string
  im_fullNamePtr :: string
  im_iclsPtr :: string
  im_protection :: protection
  im_flags :: "memberFlag set"
  im_usage :: "string option"
  im_body :: "string option"

record itclVariable =
  iv_namePtr :: string
  iv_fullNamePtr :: string
  iv_iclsPtr :: string
  iv_protection :: protection
  iv_init :: "tclObj option"
  iv_codePtr :: "itclMemberCode option"

record itclVarLookup =
  vl_ivPtr :: itclVariable
  vl_leastQualName :: string

record itclComponent =
  ic_namePtr :: string

datatype itclClass =
  ItclClass
    (cls_fullname: string)
    (cls_bases: "itclClass list")
    (cls_functions: "(string \<times> itclMemberFunc) list")
    (cls_variables: "(string \<times> itclVariable) list")
    (cls_resolveVars: "(string \<times> itclVarLookup) list")
    (cls_components: "(string \<times> itclComponent) list")
    (cls_flags: "classFlag set")
    (cls_numVariables: nat)

fun set_functions :: "itclClass \<Rightarrow> (string \<times> itclMemberFunc) list \<Rightarrow> itclClass" where
  "set_functions (ItclClass n bs fs vs rv cs fl nv) fs' = ItclClass n bs fs' vs rv cs fl nv"

fun set_variables :: "itclClass \<Rightarrow> (string \<times> itclVariable) list \<Rightarrow> itclClass" where
  "set_variables (ItclClass n bs fs vs rv cs fl nv) vs' = ItclClass n bs fs vs' rv cs fl nv"

fun set_resolveVars :: "itclClass \<Rightarrow> (string \<times> itclVarLookup) list \<Rightarrow> itclClass" where
  "set_resolveVars (ItclClass n bs fs vs rv cs fl nv) rv' = ItclClass n bs fs vs rv' cs fl nv"

fun set_components :: "itclClass \<Rightarrow> (string \<times> itclComponent) list \<Rightarrow> itclClass" where
  "set_components (ItclClass n bs fs vs rv cs fl nv) cs' = ItclClass n bs fs vs rv cs' fl nv"

fun set_flags :: "itclClass \<Rightarrow> classFlag set \<Rightarrow> itclClass" where
  "set_flags (ItclClass n bs fs vs rv cs fl nv) fl' = ItclClass n bs fs vs rv cs fl' nv"

fun set_numVariables :: "itclClass \<Rightarrow> nat \<Rightarrow> itclClass" where
  "set_numVariables (ItclClass n bs fs vs rv cs fl nv) nv' = ItclClass n bs fs vs rv cs fl nv'"

record itclObject =
  io_iclsPtr :: itclClass
  io_varNsNamePtr :: string
  io_accessCmd :: string
  io_resolvePtr :: string

text \<open>
  The part of \<^verbatim>\<open>ItclObjectInfo\<close> (reached as \<^verbatim>\<open>iclsPtr->infoPtr\<close>) that the commands
  read, apart from the widget delegate, which is a function and is passed to the
  commands that consult it.
\<close>

record itclObjectInfo =
  useOldResolvers :: bool
  currIoPtr :: "itclObject option"

text \<open>
  The interpreter: the variables by fully-qualified path, the result object, the
  accumulated error information, what \<^verbatim>\<open>Itcl_GetContext\<close> finds in the active call,
  the words and client data of the active call frame, the namespace and resolver of
  the frame, the variables whose assignment the host refuses (a write trace that
  raises, an array), and the loaded classes.
\<close>

record interp =
  vars :: "string \<Rightarrow> string option"
  result :: tclObj
  errorInfo :: string
  callContext :: "(itclClass \<times> itclObject option) option"
  frameObjv :: "string list option"
  frameClientData :: bool
  frameNs :: string
  frameResolver :: "string option"
  setRefused :: "string \<Rightarrow> bool"
  classes :: "(string \<times> itclClass) list"
  infoPtr :: itclObjectInfo

section \<open>The host interpreter's operations\<close>

fun join_words :: "string list \<Rightarrow> string" where
  "join_words [] = []"
| "join_words [w] = w"
| "join_words (w # ws) = w @ '' '' @ join_words ws"

definition list_word :: "string \<Rightarrow> string" where
  "list_word w = (if w = [] \<or> CHR '' '' \<in> set w then ''{'' @ w @ ''}'' else w)"

text \<open>
  \<^verbatim>\<open>Tcl_GetString\<close>: the string form of an object. For a list it is the words
  separated by blanks, a word that is empty or holds a blank in braces (the host's
  quoting of other special characters is left out; the commands below take the string
  of a list only when a message is appended to a list-valued result).
\<close>

fun Tcl_GetString :: "tclObj \<Rightarrow> string" where
  "Tcl_GetString (Str s) = s"
| "Tcl_GetString (Lst xs) = join_words (map (\<lambda>x. list_word (Tcl_GetString x)) xs)"

definition Tcl_AppendStringsToObj :: "interp \<Rightarrow> string list \<Rightarrow> interp" where
  "Tcl_AppendStringsToObj ip strs = ip\<lparr>result := Str (Tcl_GetString (result ip) @ concat strs)\<rparr>"

definition Tcl_SetObjResult :: "interp \<Rightarrow> tclObj \<Rightarrow> interp" where
  "Tcl_SetObjResult ip obj = ip\<lparr>result := obj\<rparr>"

definition Tcl_ResetResult :: "interp \<Rightarrow> interp" where
  "Tcl_ResetResult ip = ip\<lparr>result := Str []\<rparr>"

definition Tcl_AddErrorInfo :: "interp \<Rightarrow> string \<Rightarrow> interp" where
  "Tcl_AddErrorInfo ip msg = ip\<lparr>errorInfo := errorInfo ip @ msg\<rparr>"

definition Tcl_GetVar2 :: "interp \<Rightarrow> string \<Rightarrow> string option" where
  "Tcl_GetVar2 ip varName = vars ip varName"

text \<open>
  \<^verbatim>\<open>Tcl_SetVar2\<close> returns NULL (here \<^const>\<open>None\<close>) when the host refuses the
  assignment, and the new interpreter otherwise. The message the host leaves with
  \<^verbatim>\<open>TCL_LEAVE_ERR_MSG\<close> is the host's and is not modelled.
\<close>

definition Tcl_SetVar2 :: "interp \<Rightarrow> string \<Rightarrow> string \<Rightarrow> interp option" where
  "Tcl_SetVar2 ip varName newValue =
     (if setRefused ip varName then None
      else Some (ip\<lparr>vars := (vars ip)(varName \<mapsto> newValue)\<rparr>))"

text \<open>
  \<^verbatim>\<open>Tcl_NewStringObj(bytes, length)\<close>: the first \<^verbatim>\<open>length\<close> bytes of \<^verbatim>\<open>bytes\<close>, or
  all of them when \<^verbatim>\<open>length\<close> is negative.
\<close>

definition Tcl_NewStringObj :: "string \<Rightarrow> int \<Rightarrow> string" where
  "Tcl_NewStringObj bytes len = (if len < 0 then bytes else take (nat len) bytes)"

subsection \<open>The host's hash table\<close>

text \<open>
  The hash table of the host (\<^verbatim>\<open>tclHash.c\<close> of Tcl, which is not part of this
  repository), as far as the order of its enumeration goes. A table starts with 4
  buckets; the bucket of a key is its hash value masked with the number of buckets
  less one; a new entry is put at the head of the chain of its bucket; when the
  number of entries reaches three times the number of buckets, the table is rebuilt
  with four times as many buckets, the old chains being emptied from their heads into
  the heads of the new ones. The enumeration goes through the buckets by index and
  through each chain from its head. The hash value of a key is computed over its
  bytes in unsigned 32-bit arithmetic, \<^verbatim>\<open>result += (result << 3) + c\<close>.
  A table is the list of its entries in the order of the enumeration; the number of
  buckets is the one of a table that has grown to its present size without deletions.
\<close>

definition HashObjKey :: "string \<Rightarrow> nat" where
  "HashObjKey key =
     foldl (\<lambda>result c. (result + 8 * result + of_char c) mod 4294967296) 0 key"

fun numBuckets_from :: "nat \<Rightarrow> nat \<Rightarrow> nat \<Rightarrow> nat" where
  "numBuckets_from 0 nb numEntries = nb"
| "numBuckets_from (Suc fuel) nb numEntries =
     (if numEntries < 3 * nb then nb else numBuckets_from fuel (4 * nb) numEntries)"

definition numBuckets :: "nat \<Rightarrow> nat" where
  "numBuckets numEntries = numBuckets_from numEntries 4 numEntries"

definition bucket_index :: "nat \<Rightarrow> string \<Rightarrow> nat" where
  "bucket_index nb key = HashObjKey key mod nb"

definition hash_chain :: "nat \<Rightarrow> nat \<Rightarrow> (string \<times> 'v) list \<Rightarrow> (string \<times> 'v) list" where
  "hash_chain nb i tbl = filter (\<lambda>e. bucket_index nb (fst e) = i) tbl"

definition hash_insert ::
  "nat \<Rightarrow> string \<times> 'v \<Rightarrow> (string \<times> 'v) list \<Rightarrow> (string \<times> 'v) list" where
  "hash_insert nb e tbl =
     concat (map (\<lambda>i. (if i = bucket_index nb (fst e) then [e] else []) @ hash_chain nb i tbl)
               [0..<nb])"

definition RebuildTable :: "nat \<Rightarrow> (string \<times> 'v) list \<Rightarrow> (string \<times> 'v) list" where
  "RebuildTable nb tbl = concat (map (\<lambda>i. rev (hash_chain nb i tbl)) [0..<nb])"

text \<open>
  \<^verbatim>\<open>Tcl_CreateHashEntry\<close> followed by \<^verbatim>\<open>Tcl_SetHashValue\<close> on a new entry; a key
  that is in the table already leaves the table as it is.
\<close>

definition Tcl_CreateHashEntry ::
  "(string \<times> 'v) list \<Rightarrow> string \<Rightarrow> 'v \<Rightarrow> (string \<times> 'v) list" where
  "Tcl_CreateHashEntry tbl key v =
     (if map_of tbl key \<noteq> None then tbl
      else let nb = numBuckets (length tbl);
               tbl' = hash_insert nb (key, v) tbl
           in if 3 * nb \<le> length tbl' then RebuildTable (4 * nb) tbl' else tbl')"

section \<open>Collaborators of the two files that are not among the sources\<close>

subsection \<open>The hierarchy iterator\<close>

fun preorder :: "itclClass \<Rightarrow> itclClass list" where
  "preorder (ItclClass n bs fs vs rv cs fl nv) =
     ItclClass n bs fs vs rv cs fl nv # concat (map preorder bs)"

fun first_visits :: "itclClass list \<Rightarrow> itclClass list \<Rightarrow> itclClass list" where
  "first_visits seen [] = []"
| "first_visits seen (c # cs) =
     (if c \<in> set seen then first_visits seen cs else c # first_visits (c # seen) cs)"

text \<open>
  Modelled from the spec: the hierarchy iterator (\<^verbatim>\<open>Itcl_InitHierIter\<close>,
  \<^verbatim>\<open>Itcl_AdvanceHierIter\<close>, \<^verbatim>\<open>Itcl_DeleteHierIter\<close> of itclClass.c, which is not
  among the sources). It linearizes a class's ancestor chain depth-first over the
  superclasses, the most-derived class first, ancestors in declaration order, each
  class visited once. The iterator is the list of the classes still to be visited.
\<close>

definition Itcl_InitHierIter :: "itclClass \<Rightarrow> itclClass list" where
  "Itcl_InitHierIter iclsPtr = first_visits [] (preorder iclsPtr)"

fun Itcl_AdvanceHierIter :: "itclClass list \<Rightarrow> itclClass option \<times> itclClass list" where
  "Itcl_AdvanceHierIter [] = (None, [])"
| "Itcl_AdvanceHierIter (c # hier) = (Some c, hier)"

subsection \<open>Context, instance variables, class lookup\<close>

text \<open>
  Modelled from the spec: the invocation context resolver (\<^verbatim>\<open>Itcl_GetContext\<close>, not
  among the sources). It recovers from the active call the class scope and the object
  (none for a class-level call) and fails outside any class context. The message it
  leaves on failure is its own and is not modelled.
\<close>

definition Itcl_GetContext :: "interp \<Rightarrow> (itclClass \<times> itclObject option) option" where
  "Itcl_GetContext ip = callContext ip"

text \<open>
  The storage path of an instance variable, as \<^verbatim>\<open>Itcl_BiConfigureCmd\<close> builds it in
  \<^verbatim>\<open>buffer2\<close>: the object's variable namespace, the declaring class's full name,
  \<^verbatim>\<open>::\<close> and the variable's simple name.
\<close>

definition instanceVarName :: "itclObject \<Rightarrow> string \<Rightarrow> string \<Rightarrow> string" where
  "instanceVarName contextIoPtr iclsFullname name =
     io_varNsNamePtr contextIoPtr @ iclsFullname @ ''::'' @ name"

text \<open>
  Modelled from the spec: \<^verbatim>\<open>Itcl_GetInstanceVar\<close> (itclObject.c, not among the
  sources), the variable-storage collaborator's get of a variable by fully-qualified
  path, returning either a value or an unset indication.
\<close>

definition Itcl_GetInstanceVar ::
  "interp \<Rightarrow> string \<Rightarrow> itclObject \<Rightarrow> string \<Rightarrow> string option" where
  "Itcl_GetInstanceVar ip name contextIoPtr iclsFullname =
     Tcl_GetVar2 ip (instanceVarName contextIoPtr iclsFullname name)"

text \<open>
  Modelled from the spec: \<^verbatim>\<open>Itcl_FindClass\<close> with autoloading (not among the
  sources). A class that is not in the loaded set triggers the class-loading
  collaborator \<open>autoload\<close>, which runs synchronously and may extend the loaded set;
  the lookup fails when the class is still absent afterwards.
\<close>

definition Itcl_FindClass ::
  "(string \<Rightarrow> interp \<Rightarrow> interp) \<Rightarrow> interp \<Rightarrow> string \<Rightarrow> itclClass option \<times> interp" where
  "Itcl_FindClass autoload ip path =
     (case map_of (classes ip) path of
        Some iclsPtr \<Rightarrow> (Some iclsPtr, ip)
      | None \<Rightarrow> (let ip' = autoload path ip in (map_of (classes ip') path, ip')))"

text \<open>
  Modelled from the spec: \<^verbatim>\<open>Itcl_ObjectIsa\<close> (not among the sources): whether the
  class is anywhere in the object's heritage, that is, among the classes of the
  hierarchy of the object's class.
\<close>

definition Itcl_ObjectIsa :: "itclObject \<Rightarrow> itclClass \<Rightarrow> bool" where
  "Itcl_ObjectIsa contextIoPtr iclsPtr =
     (iclsPtr \<in> set (Itcl_InitHierIter (io_iclsPtr contextIoPtr)))"

subsection \<open>Creating members\<close>

text \<open>
  Modelled from the spec: \<^verbatim>\<open>Itcl_CreateMethod\<close> (itclMethod.c, not among the
  sources). It creates a member function record of the class under the given name,
  with the usage string and the registration name of the implementation as its body.
  Creation fails on a name collision in the class's own table, or when the
  registration name is not bound to an implementation (\<open>bound\<close>, a table of the host).
\<close>

definition Itcl_CreateMethod ::
  "(string \<Rightarrow> bool) \<Rightarrow> itclClass \<Rightarrow> string \<Rightarrow> string \<Rightarrow> string \<Rightarrow> retcode \<times> itclClass" where
  "Itcl_CreateMethod bound iclsPtr name arglist body =
     (if map_of (cls_functions iclsPtr) name \<noteq> None \<or> \<not> bound body then (TCL_ERROR, iclsPtr)
      else (TCL_OK, set_functions iclsPtr (cls_functions iclsPtr @
              [(name, \<lparr>im_namePtr = name,
                       im_fullNamePtr = cls_fullname iclsPtr @ ''::'' @ name,
                       im_iclsPtr = cls_fullname iclsPtr,
                       im_protection = ITCL_PUBLIC,
                       im_flags = {},
                       im_usage = Some arglist,
                       im_body = Some body\<rparr>)])))"

text \<open>
  Modelled from the spec: \<^verbatim>\<open>ItclCreateComponent\<close> (not among the sources), the
  composite installer's \<open>installComponent(class, name)\<close>: it adds a named component
  slot to the class and is idempotent against a definition that is already there.
\<close>

definition ItclCreateComponent :: "itclClass \<Rightarrow> string \<Rightarrow> retcode \<times> itclClass" where
  "ItclCreateComponent iclsPtr namePtr =
     (if map_of (cls_components iclsPtr) namePtr \<noteq> None then (TCL_OK, iclsPtr)
      else (TCL_OK, set_components iclsPtr
              (cls_components iclsPtr @ [(namePtr, \<lparr>ic_namePtr = namePtr\<rparr>)])))"

text \<open>
  Modelled from the spec: \<^verbatim>\<open>Itcl_CreateVariable\<close> (not among the sources), by which
  the composite installer creates the options-storage member: it adds a member
  variable of the given name, initial value and config code to the class's variable
  table (a new entry of the hash table) and is idempotent against a definition that
  is already there.
\<close>

definition Itcl_CreateVariable ::
  "itclClass \<Rightarrow> string \<Rightarrow> tclObj option \<Rightarrow> itclMemberCode option \<Rightarrow> retcode \<times> itclClass" where
  "Itcl_CreateVariable iclsPtr namePtr init config =
     (if map_of (cls_variables iclsPtr) namePtr \<noteq> None then (TCL_OK, iclsPtr)
      else (TCL_OK, set_variables iclsPtr
              (Tcl_CreateHashEntry (cls_variables iclsPtr) namePtr
                 \<lparr>iv_namePtr = namePtr,
                  iv_fullNamePtr = cls_fullname iclsPtr @ ''::'' @ namePtr,
                  iv_iclsPtr = cls_fullname iclsPtr,
                  iv_protection = ITCL_PROTECTED,
                  iv_init = init,
                  iv_codePtr = config\<rparr>)))"

text \<open>
  \<^verbatim>\<open>Itcl_BuildVirtualTables\<close> (not among the sources) rebuilds the class's
  resolution tables from its members; the table it computes is the parameter \<open>build\<close>.
\<close>

definition Itcl_BuildVirtualTables ::
  "(itclClass \<Rightarrow> (string \<times> itclVarLookup) list) \<Rightarrow> itclClass \<Rightarrow> itclClass" where
  "Itcl_BuildVirtualTables build iclsPtr = set_resolveVars iclsPtr (build iclsPtr)"

section \<open>itclWidgetCmd.c\<close>

text \<open>
  \<^verbatim>\<open>Itcl_WidgetCmd\<close>. The class-definition command \<^verbatim>\<open>ItclClassBaseCmd\<close> is not
  among the sources: it is the parameter of that name, giving the completion code and
  the class it built. The command's effect is the class as it leaves it.
\<close>

definition Itcl_WidgetCmd ::
  "(classFlag \<Rightarrow> string list \<Rightarrow> retcode \<times> itclClass) \<Rightarrow>
   (itclClass \<Rightarrow> (string \<times> itclVarLookup) list) \<Rightarrow> string list \<Rightarrow> retcode \<times> itclClass option" where
  "Itcl_WidgetCmd ItclClassBaseCmd build objv =
     (case ItclClassBaseCmd ITCL_WIDGET objv of (res, iclsPtr) \<Rightarrow>
        if res \<noteq> TCL_OK then (res, None)
        else
          let iclsPtr =
                (if cls_flags iclsPtr \<inter> {ITCL_WIDGET_FRAME, ITCL_WIDGET_TOPLEVEL} = {}
                 then set_flags iclsPtr (insert ITCL_WIDGET_FRAME (cls_flags iclsPtr))
                 else iclsPtr);
              namePtr = Tcl_NewStringObj ''hull'' 4
          in (case ItclCreateComponent iclsPtr namePtr of (rc, iclsPtr) \<Rightarrow>
                if rc \<noteq> TCL_OK then (TCL_ERROR, Some iclsPtr)
                else
                  let namePtr = Tcl_NewStringObj ''itcl_options'' 11
                  in (case Itcl_CreateVariable iclsPtr namePtr None None of (rc, iclsPtr) \<Rightarrow>
                        if rc \<noteq> TCL_OK then (TCL_ERROR, Some iclsPtr)
                        else
                          let iclsPtr = set_numVariables iclsPtr (cls_numVariables iclsPtr + 1);
                              iclsPtr = Itcl_BuildVirtualTables build iclsPtr
                          in (res, Some iclsPtr))))"

section \<open>itclBuiltin.c\<close>

subsection \<open>The list of built-in methods and their installation\<close>

text \<open>
  \<^verbatim>\<open>BiMethodList\<close>. The fourth field of the C structure, the implementing C
  procedure, is used by \<^verbatim>\<open>Itcl_BiInit\<close> only and is left out.
\<close>

record BiMethod =
  bi_name :: string
  bi_usage :: string
  bi_registration :: string

definition BiMethodList :: "BiMethod list" where
  "BiMethodList =
     [\<lparr>bi_name = ''cget'', bi_usage = ''-option'', bi_registration = ''@itcl-builtin-cget''\<rparr>,
      \<lparr>bi_name = ''configure'', bi_usage = ''?-option? ?value -option value...?'',
       bi_registration = ''@itcl-builtin-configure''\<rparr>,
      \<lparr>bi_name = ''info'', bi_usage = ''???'', bi_registration = ''@itcl-builtin-info''\<rparr>,
      \<lparr>bi_name = ''isa'', bi_usage = ''className'', bi_registration = ''@itcl-builtin-isa''\<rparr>]"

text \<open>
  The inner \<^verbatim>\<open>while (superPtr)\<close> loop of \<^verbatim>\<open>Itcl_InstallBiMethods\<close> over the
  iterator. \<^verbatim>\<open>entry\<close> is declared outside both loops, so the loop starts from the
  value the previous pass left and overwrites it at every class it visits.
\<close>

fun find_in_hier ::
  "string \<Rightarrow> itclClass list \<Rightarrow> itclMemberFunc option \<Rightarrow> itclMemberFunc option" where
  "find_in_hier name [] entry = entry"
| "find_in_hier name (superPtr # hier) entry =
     (case map_of (cls_functions superPtr) name of
        Some e \<Rightarrow> Some e
      | None \<Rightarrow> find_in_hier name hier None)"

text \<open>The \<^verbatim>\<open>for (i=0; i < BiMethodListLen; i++)\<close> loop, on the entries still to do.\<close>

fun install_loop ::
  "(string \<Rightarrow> bool) \<Rightarrow> BiMethod list \<Rightarrow> itclMemberFunc option \<Rightarrow> itclClass \<Rightarrow> retcode \<times> itclClass" where
  "install_loop bound [] entry iclsPtr = (TCL_OK, iclsPtr)"
| "install_loop bound (b # bs) entry iclsPtr =
     (let entry = find_in_hier (bi_name b) (Itcl_InitHierIter iclsPtr) entry
      in if entry = None
         then (case Itcl_CreateMethod bound iclsPtr (bi_name b) (bi_usage b) (bi_registration b) of
                 (res, iclsPtr') \<Rightarrow>
                   if res \<noteq> TCL_OK then (res, iclsPtr') else install_loop bound bs entry iclsPtr')
         else install_loop bound bs entry iclsPtr)"

definition Itcl_InstallBiMethods :: "(string \<Rightarrow> bool) \<Rightarrow> itclClass \<Rightarrow> retcode \<times> itclClass" where
  "Itcl_InstallBiMethods bound iclsPtr = install_loop bound BiMethodList None iclsPtr"

subsection \<open>isa\<close>

definition Itcl_BiIsaCmd ::
  "(string \<Rightarrow> interp \<Rightarrow> interp) \<Rightarrow> interp \<Rightarrow> string list \<Rightarrow> fault + retcode \<times> interp" where
  \<open>Itcl_BiIsaCmd autoload ip objv =
     (case Itcl_GetContext ip of
        None \<Rightarrow> Inr (TCL_ERROR, ip)
      | Some (contextIclsPtr, None) \<Rightarrow>
          Inr (TCL_ERROR, Tcl_AppendStringsToObj ip
                 [''improper usage: should be "object isa className"''])
      | Some (contextIclsPtr, Some contextIoPtr) \<Rightarrow>
          (case objv of
             [] \<Rightarrow> Inl OutOfBounds
           | [cmd, token] \<Rightarrow>
               (case Itcl_FindClass autoload ip token of
                  (None, ip') \<Rightarrow> Inr (TCL_ERROR, ip')
                | (Some iclsPtr, ip') \<Rightarrow>
                    if Itcl_ObjectIsa contextIoPtr iclsPtr
                    then Inr (TCL_OK, Tcl_SetObjResult ip' (Str ''1''))
                    else Inr (TCL_OK, Tcl_SetObjResult ip' (Str ''0'')))
           | cmd # _ \<Rightarrow>
               Inr (TCL_ERROR, Tcl_AppendStringsToObj ip
                      [''wrong # args: should be "object '', cmd, '' className"''])))\<close>

subsection \<open>configure and cget\<close>

text \<open>
  The configuration delegate of a widget-style class,
  \<^verbatim>\<open>contextIclsPtr->infoPtr->windgetInfoPtr->widgetConfigure\<close>: a procedure of the
  widget package, given the class, the interpreter and the words of the call.
\<close>

type_synonym widgetConfigure = "itclClass \<Rightarrow> interp \<Rightarrow> string list \<Rightarrow> retcode \<times> interp"

text \<open>The value or the marker \<^verbatim>\<open><undefined>\<close>.\<close>

definition value_or_undefined :: "string option \<Rightarrow> tclObj" where
  "value_or_undefined val = (case val of Some v \<Rightarrow> Str v | None \<Rightarrow> Str ''<undefined>'')"

definition ItclReportPublicOpt :: "interp \<Rightarrow> itclVariable \<Rightarrow> itclObject \<Rightarrow> fault + tclObj" where
  "ItclReportPublicOpt ip ivPtr contextIoPtr =
     (case map_of (cls_resolveVars (io_iclsPtr contextIoPtr)) (iv_fullNamePtr ivPtr) of
        None \<Rightarrow> Inl AssertFailed
      | Some vlookup \<Rightarrow>
          Inr (Lst [Str (''-'' @ vl_leastQualName vlookup),
                    (case iv_init ivPtr of Some objPtr \<Rightarrow> objPtr | None \<Rightarrow> Str ''<undefined>''),
                    value_or_undefined
                      (Itcl_GetInstanceVar ip (iv_namePtr ivPtr) contextIoPtr (iv_iclsPtr ivPtr))]))"

text \<open>
  The two nested loops of \<^verbatim>\<open>configure\<close> without arguments: over the entries of one
  class's variable table as \<^verbatim>\<open>Tcl_FirstHashEntry\<close> and \<^verbatim>\<open>Tcl_NextHashEntry\<close>
  enumerate them (the list of the table is in that order), and over the classes the
  iterator yields; \<open>resultPtr\<close> is the list built so far.
\<close>

fun report_variables ::
  "interp \<Rightarrow> itclObject \<Rightarrow> (string \<times> itclVariable) list \<Rightarrow> tclObj list \<Rightarrow> fault + tclObj list" where
  "report_variables ip contextIoPtr [] resultPtr = Inr resultPtr"
| "report_variables ip contextIoPtr ((key, ivPtr) # entries) resultPtr =
     (if iv_protection ivPtr = ITCL_PUBLIC
      then (case ItclReportPublicOpt ip ivPtr contextIoPtr of
              Inl f \<Rightarrow> Inl f
            | Inr objPtr \<Rightarrow> report_variables ip contextIoPtr entries (resultPtr @ [objPtr]))
      else report_variables ip contextIoPtr entries resultPtr)"

fun report_hierarchy ::
  "interp \<Rightarrow> itclObject \<Rightarrow> itclClass list \<Rightarrow> tclObj list \<Rightarrow> fault + tclObj list" where
  "report_hierarchy ip contextIoPtr [] resultPtr = Inr resultPtr"
| "report_hierarchy ip contextIoPtr (iclsPtr # hier) resultPtr =
     (case report_variables ip contextIoPtr (cls_variables iclsPtr) resultPtr of
        Inl f \<Rightarrow> Inl f
      | Inr resultPtr' \<Rightarrow> report_hierarchy ip contextIoPtr hier resultPtr')"

definition usage_configure :: "string list" where
  \<open>usage_configure =
     [''improper usage: should be '', ''"object configure ?-option? ?value -option value...?"'']\<close>

text \<open>
  The message \<^verbatim>\<open>sprintf\<close> builds for \<^verbatim>\<open>Tcl_AddErrorInfo\<close>; the conversion
  \<^verbatim>\<open>%.100s\<close> takes at most 100 bytes of the name.
\<close>

definition config_error_msg :: "itclVariable \<Rightarrow> string" where
  \<open>config_error_msg ivPtr =
     [CHR 0x0A] @ ''    (error in configuration of public variable "''
       @ take 100 (iv_fullNamePtr ivPtr) @ ''")''\<close>

text \<open>
  The call frame in which the config code runs: the object's resolver unless the old
  resolvers are in use, and the namespace of the class that declares the variable.
\<close>

definition config_frame :: "interp \<Rightarrow> itclObject \<Rightarrow> itclVariable \<Rightarrow> interp" where
  "config_frame ip contextIoPtr ivPtr =
     (let ip = (if \<not> useOldResolvers (infoPtr ip)
                then ip\<lparr>frameResolver := Some (io_resolvePtr contextIoPtr)\<rparr> else ip)
      in ip\<lparr>frameNs := iv_iclsPtr ivPtr\<rparr>)"

text \<open>
  The loop \<^verbatim>\<open>for (i=1; i < objc; i+=2)\<close> of \<^verbatim>\<open>configure -option value ...\<close>, on
  the words from \<^verbatim>\<open>objv[i]\<close> on: \<^verbatim>\<open>i == objc-1\<close> is the case of one word left.
  \<open>Tcl_EvalObjEx\<close> is the host's evaluator of a script in an interpreter.
\<close>

fun configure_pairs ::
  "(string \<Rightarrow> interp \<Rightarrow> retcode \<times> interp) \<Rightarrow> itclClass \<Rightarrow> itclObject \<Rightarrow> string list \<Rightarrow> interp
   \<Rightarrow> retcode \<times> interp" where
  \<open>configure_pairs Tcl_EvalObjEx contextIclsPtr contextIoPtr [] ip = (TCL_OK, ip)\<close>
| \<open>configure_pairs Tcl_EvalObjEx contextIclsPtr contextIoPtr (token # rest) ip =
     (let vlookup = (case token of
                       c # key \<Rightarrow> if c = CHR ''-'' then map_of (cls_resolveVars contextIclsPtr) key
                                  else None
                     | [] \<Rightarrow> None)
      in case vlookup of
           None \<Rightarrow> (TCL_ERROR, Tcl_AppendStringsToObj ip [''unknown option "'', token, ''"''])
         | Some vl \<Rightarrow>
             if iv_protection (vl_ivPtr vl) \<noteq> ITCL_PUBLIC
             then (TCL_ERROR, Tcl_AppendStringsToObj ip [''unknown option "'', token, ''"''])
             else
               (case rest of
                  [] \<Rightarrow> (TCL_ERROR, Tcl_AppendStringsToObj ip [''value for "'', token, ''" missing''])
                | newval # rest' \<Rightarrow>
                    let ivPtr = vl_ivPtr vl;
                        varName = instanceVarName contextIoPtr (iv_iclsPtr ivPtr) (iv_namePtr ivPtr);
                        lastval = Tcl_GetVar2 ip varName;
                        buffer = (case lastval of Some v \<Rightarrow> v | None \<Rightarrow> [])
                    in (case Tcl_SetVar2 ip varName newval of
                          None \<Rightarrow> (TCL_ERROR, Tcl_AddErrorInfo ip (config_error_msg ivPtr))
                        | Some ip1 \<Rightarrow>
                            (case iv_codePtr ivPtr of
                               None \<Rightarrow>
                                 configure_pairs Tcl_EvalObjEx contextIclsPtr contextIoPtr rest' ip1
                             | Some mcode \<Rightarrow>
                                 if \<not> mc_implemented mcode
                                 then configure_pairs Tcl_EvalObjEx contextIclsPtr contextIoPtr rest' ip1
                                 else
                                   let saveNsPtr = frameNs ip1;
                                       ran = Tcl_EvalObjEx (mc_bodyPtr mcode)
                                               (config_frame ip1 contextIoPtr ivPtr);
                                       ip2 = (snd ran)\<lparr>frameNs := saveNsPtr\<rparr>
                                   in if fst ran = TCL_OK
                                      then configure_pairs Tcl_EvalObjEx contextIclsPtr contextIoPtr
                                             rest' (Tcl_ResetResult ip2)
                                      else
                                        let ip3 = Tcl_AddErrorInfo ip2 (config_error_msg ivPtr)
                                        in (fst ran,
                                            (case Tcl_SetVar2 ip3 varName buffer of
                                               Some ip4 \<Rightarrow> ip4 | None \<Rightarrow> ip3))))))\<close>

definition Itcl_BiConfigureCmd ::
  "widgetConfigure option \<Rightarrow> (string \<Rightarrow> interp \<Rightarrow> retcode \<times> interp) \<Rightarrow> interp \<Rightarrow> string list
   \<Rightarrow> fault + retcode \<times> interp" where
  \<open>Itcl_BiConfigureCmd windgetInfoPtr Tcl_EvalObjEx ip objv =
     (case Itcl_GetContext ip of
        None \<Rightarrow> Inr (TCL_ERROR, ip)
      | Some (contextIclsPtr, None) \<Rightarrow>
          Inr (TCL_ERROR, Tcl_AppendStringsToObj ip usage_configure)
      | Some (contextIclsPtr, Some contextIoPtr) \<Rightarrow>
          let contextIclsPtr = io_iclsPtr contextIoPtr
          in if ITCL_IS_CLASS \<notin> cls_flags contextIclsPtr \<and> windgetInfoPtr \<noteq> None
             then (case windgetInfoPtr of
                     Some widgetConfigure \<Rightarrow> Inr (widgetConfigure contextIclsPtr ip objv)
                   | None \<Rightarrow> Inl NullDeref)
             else if length objv = 1
             then (case report_hierarchy ip contextIoPtr (Itcl_InitHierIter contextIclsPtr) [] of
                     Inl f \<Rightarrow> Inl f
                   | Inr resultPtr \<Rightarrow> Inr (TCL_OK, Tcl_SetObjResult ip (Lst resultPtr)))
             else if length objv = 2
             then (case objv ! 1 of
                     [] \<Rightarrow> Inr (TCL_ERROR, Tcl_AppendStringsToObj ip usage_configure)
                   | c # key \<Rightarrow>
                       if c \<noteq> CHR ''-''
                       then Inr (TCL_ERROR, Tcl_AppendStringsToObj ip usage_configure)
                       else
                         (case map_of (cls_resolveVars contextIclsPtr) key of
                            None \<Rightarrow>
                              Inr (TCL_ERROR,
                                   Tcl_AppendStringsToObj ip [''unknown option "'', objv ! 1, ''"''])
                          | Some vlookup \<Rightarrow>
                              if iv_protection (vl_ivPtr vlookup) \<noteq> ITCL_PUBLIC
                              then Inr (TCL_ERROR,
                                        Tcl_AppendStringsToObj ip [''unknown option "'', objv ! 1, ''"''])
                              else
                                (case ItclReportPublicOpt ip (vl_ivPtr vlookup) contextIoPtr of
                                   Inl f \<Rightarrow> Inl f
                                 | Inr resultPtr \<Rightarrow> Inr (TCL_OK, Tcl_SetObjResult ip resultPtr))))
             else Inr (configure_pairs Tcl_EvalObjEx contextIclsPtr contextIoPtr (tl objv) ip))\<close>

text \<open>
  \<^verbatim>\<open>Itcl_BiCgetCmd\<close> looks the option up under \<^verbatim>\<open>name+1\<close>. For an empty
  \<^verbatim>\<open>name\<close> that address lies behind the terminating NUL.
\<close>

definition Itcl_BiCgetCmd ::
  "widgetConfigure option \<Rightarrow> interp \<Rightarrow> string list \<Rightarrow> fault + retcode \<times> interp" where
  \<open>Itcl_BiCgetCmd windgetInfoPtr ip objv =
     (case Itcl_GetContext ip of
        None \<Rightarrow> Inr (TCL_ERROR, ip)
      | Some (contextIclsPtr, contextIoOpt) \<Rightarrow>
          (case contextIoOpt of
             None \<Rightarrow>
               Inr (TCL_ERROR, Tcl_AppendStringsToObj ip
                      [''improper usage: should be "object cget -option"''])
           | Some contextIoPtr \<Rightarrow>
               if length objv \<noteq> 2
               then Inr (TCL_ERROR, Tcl_AppendStringsToObj ip
                           [''improper usage: should be "object cget -option"''])
               else
                 let contextIclsPtr = io_iclsPtr contextIoPtr
                 in if ITCL_IS_CLASS \<notin> cls_flags contextIclsPtr \<and> windgetInfoPtr \<noteq> None
                    then (case windgetInfoPtr of
                            Some widgetConfigure \<Rightarrow> Inr (widgetConfigure contextIclsPtr ip objv)
                          | None \<Rightarrow> Inl NullDeref)
                    else
                      let name = objv ! 1
                      in (case name of
                            [] \<Rightarrow> Inl OutOfBounds
                          | c # key \<Rightarrow>
                              (case map_of (cls_resolveVars contextIclsPtr) key of
                                 None \<Rightarrow>
                                   Inr (TCL_ERROR,
                                        Tcl_AppendStringsToObj ip [''unknown option "'', name, ''"''])
                               | Some vlookup \<Rightarrow>
                                   if iv_protection (vl_ivPtr vlookup) \<noteq> ITCL_PUBLIC
                                   then Inr (TCL_ERROR,
                                             Tcl_AppendStringsToObj ip
                                               [''unknown option "'', name, ''"''])
                                   else
                                     Inr (TCL_OK,
                                          Tcl_SetObjResult ip
                                            (value_or_undefined
                                               (Itcl_GetInstanceVar ip
                                                  (iv_namePtr (vl_ivPtr vlookup)) contextIoPtr
                                                  (iv_iclsPtr (vl_ivPtr vlookup)))))))))\<close>

subsection \<open>chain\<close>

fun before_sep :: "string \<Rightarrow> string" where
  "before_sep (a # b # cs) =
     (if a = CHR '':'' \<and> b = CHR '':'' then [] else a # before_sep (b # cs))"
| "before_sep cs = cs"

text \<open>
  Modelled from the spec: \<^verbatim>\<open>Itcl_ParseNamespPath\<close> (not among the sources), of which
  \<^verbatim>\<open>Itcl_BiChainCmd\<close> uses the tail: the name with any namespace qualification
  stripped, that is, what follows the last \<^verbatim>\<open>::\<close>.
\<close>

definition Itcl_ParseNamespPath :: "string \<Rightarrow> string" where
  "Itcl_ParseNamespPath name = rev (before_sep (rev name))"

text \<open>
  Modelled from the spec: \<^verbatim>\<open>Itcl_CreateArgs\<close> (not among the sources) builds the
  command line by which the target is invoked under the given command word with all
  the arguments passed through. Its first word stands for the object the call is made
  on; \<^verbatim>\<open>Itcl_BiChainCmd\<close> overwrites it for a constructor and passes the words after
  it (\<^verbatim>\<open>newobjv+1\<close>) to the target.
\<close>

definition Itcl_CreateArgs :: "string \<Rightarrow> string list \<Rightarrow> string list" where
  "Itcl_CreateArgs string objv = ''my'' # string # objv"

text \<open>
  The loop of the object case, \<^verbatim>\<open>while ((iclsPtr = Itcl_AdvanceHierIter(&hier)) != NULL)
  { if (iclsPtr == contextIclsPtr) break; }\<close>: the iterator as the loop leaves it.
\<close>

fun chain_skip :: "itclClass \<Rightarrow> itclClass list \<Rightarrow> itclClass list" where
  "chain_skip contextIclsPtr [] = []"
| "chain_skip contextIclsPtr (iclsPtr # hier) =
     (if iclsPtr = contextIclsPtr then hier else chain_skip contextIclsPtr hier)"

text \<open>The search loop: the first class on the path whose table has the command.\<close>

fun chain_find :: "string \<Rightarrow> itclClass list \<Rightarrow> itclMemberFunc option" where
  "chain_find cmd [] = None"
| "chain_find cmd (iclsPtr # hier) =
     (case map_of (cls_functions iclsPtr) cmd of
        Some imPtr \<Rightarrow> Some imPtr
      | None \<Rightarrow> chain_find cmd hier)"

text \<open>
  The ancestor search path of \<^verbatim>\<open>chain\<close>: with an object, the hierarchy of the
  object's class behind the class that is executing; without one, the hierarchy of
  the current class behind its first element.
\<close>

definition chain_path :: "itclClass \<Rightarrow> itclObject option \<Rightarrow> itclClass list" where
  "chain_path contextIclsPtr contextIoOpt =
     (case contextIoOpt of
        Some contextIoPtr \<Rightarrow> chain_skip contextIclsPtr (Itcl_InitHierIter (io_iclsPtr contextIoPtr))
      | None \<Rightarrow> snd (Itcl_AdvanceHierIter (Itcl_InitHierIter contextIclsPtr)))"

text \<open>
  The name under which \<^verbatim>\<open>chain\<close> searches, from the command word of the active
  call: its tail, with the constructor initializer's internal name replaced.
\<close>

definition chain_member :: "string \<Rightarrow> string" where
  "chain_member word =
     (let cmd = Itcl_ParseNamespPath word
      in if cmd = ''___constructor_init'' then ''constructor'' else cmd)"

text \<open>
  \<^verbatim>\<open>Itcl_BiChainCmd\<close>. \<open>Itcl_EvalMemberCode\<close> is the executor of a member's code
  (not among the sources), given the member, the object, the words of the call and
  the interpreter.
\<close>

definition Itcl_BiChainCmd ::
  "(itclMemberFunc \<Rightarrow> itclObject option \<Rightarrow> string list \<Rightarrow> interp \<Rightarrow> retcode \<times> interp) \<Rightarrow>
   interp \<Rightarrow> string list \<Rightarrow> fault + retcode \<times> interp" where
  \<open>Itcl_BiChainCmd Itcl_EvalMemberCode ip objv =
     (case Itcl_GetContext ip of
        None \<Rightarrow>
          Inr (TCL_ERROR, Tcl_AppendStringsToObj (Tcl_ResetResult ip)
                 [''cannot chain functions outside of a class context''])
      | Some (contextIclsPtr, contextIoOpt) \<Rightarrow>
          (case frameObjv ip of
             None \<Rightarrow> Inr (TCL_OK, ip)
           | Some cObjv \<Rightarrow>
               let i = (if \<not> frameClientData ip then 0 else 1)
               in if length cObjv \<le> i then Inl OutOfBounds
                  else
                    let cmd = chain_member (cObjv ! i);
                        hier = chain_path contextIclsPtr contextIoOpt
                    in (case chain_find cmd hier of
                          None \<Rightarrow> Inr (TCL_OK, ip)
                        | Some imPtr \<Rightarrow>
                            let newobjv = Itcl_CreateArgs (im_fullNamePtr imPtr) (tl objv)
                            in if ITCL_CONSTRUCTOR \<in> im_flags imPtr
                               then (case currIoPtr (infoPtr ip) of
                                       None \<Rightarrow> Inl NullDeref
                                     | Some currIo \<Rightarrow>
                                         let newobjv = newobjv[0 := io_accessCmd currIo]
                                         in Inr (Itcl_EvalMemberCode imPtr (Some currIo)
                                                   (tl newobjv) ip))
                               else Inr (Itcl_EvalMemberCode imPtr contextIoOpt (tl newobjv) ip))))\<close>

section \<open>Notions used to state the properties\<close>

text \<open>A member function of the name exists in some class of the iterated hierarchy.\<close>

definition defined_in_hierarchy :: "string \<Rightarrow> itclClass \<Rightarrow> bool" where
  "defined_in_hierarchy name iclsPtr =
     (\<exists>k \<in> set (Itcl_InitHierIter iclsPtr). map_of (cls_functions k) name \<noteq> None)"

text \<open>The member function record that installing the built-in \<open>b\<close> puts into the class.\<close>

definition builtin_member :: "itclClass \<Rightarrow> BiMethod \<Rightarrow> itclMemberFunc" where
  "builtin_member iclsPtr b =
     \<lparr>im_namePtr = bi_name b,
      im_fullNamePtr = cls_fullname iclsPtr @ ''::'' @ bi_name b,
      im_iclsPtr = cls_fullname iclsPtr,
      im_protection = ITCL_PUBLIC,
      im_flags = {},
      im_usage = Some (bi_usage b),
      im_body = Some (bi_registration b)\<rparr>"

text \<open>
  The public variables of the classes of a hierarchy, in the order in which
  \<^verbatim>\<open>configure\<close> without arguments meets them: class by class as the iterator yields
  the classes, and within a class in the order in which the hash table of its
  variables enumerates them.
\<close>

definition public_variables :: "itclClass \<Rightarrow> itclVariable list" where
  "public_variables iclsPtr =
     concat (map (\<lambda>k. filter (\<lambda>ivPtr. iv_protection ivPtr = ITCL_PUBLIC) (map snd (cls_variables k)))
               (Itcl_InitHierIter iclsPtr))"

text \<open>
  The option name under which a variable of the object is reported: a dash and the
  least-qualified name that the object's resolution table records for the variable's
  full name.
\<close>

definition option_name :: "itclObject \<Rightarrow> itclVariable \<Rightarrow> string" where
  "option_name contextIoPtr ivPtr =
     (case map_of (cls_resolveVars (io_iclsPtr contextIoPtr)) (iv_fullNamePtr ivPtr) of
        Some vlookup \<Rightarrow> ''-'' @ vl_leastQualName vlookup
      | None \<Rightarrow> [])"

text \<open>
  The triple of an option: its name, the initial value of the variable or the marker
  \<^verbatim>\<open><undefined>\<close>, and the value that the interpreter holds under the variable's
  storage path, or the marker when it holds none.
\<close>

definition option_triple :: "interp \<Rightarrow> itclObject \<Rightarrow> itclVariable \<Rightarrow> tclObj" where
  "option_triple ip contextIoPtr ivPtr =
     Lst [Str (option_name contextIoPtr ivPtr),
          (case iv_init ivPtr of Some objPtr \<Rightarrow> objPtr | None \<Rightarrow> Str ''<undefined>''),
          (case vars ip (io_varNsNamePtr contextIoPtr @ iv_iclsPtr ivPtr @ ''::'' @ iv_namePtr ivPtr) of
             Some v \<Rightarrow> Str v
           | None \<Rightarrow> Str ''<undefined>'')]"

section \<open>Example classes, objects and interpreters\<close>

text \<open>
  A widget class as the class-definition command leaves it for
  \<^verbatim>\<open>itcl::widget W {}\<close>: no members, neither frame nor toplevel chosen.
\<close>

definition widgetW :: itclClass where
  "widgetW = ItclClass ''::W'' [] [] [] [] [] {ITCL_WIDGET} 0"

definition baseCmdW :: "classFlag \<Rightarrow> string list \<Rightarrow> retcode \<times> itclClass" where
  "baseCmdW kind objv = (TCL_OK, widgetW)"

text \<open>
  \<^verbatim>\<open>class Base { public variable a 1; method greet {} {...} }\<close> and
  \<^verbatim>\<open>class Derived { inherit Base; public variable b 2 {config code};
  protected variable p; method greet {} {... chain ...} }\<close>, and an object of
  \<^verbatim>\<open>Derived\<close>. The variable table of \<^verbatim>\<open>Derived\<close> enumerates \<^verbatim>\<open>p\<close> before
  \<^verbatim>\<open>b\<close>.
\<close>

definition varA :: itclVariable where
  "varA = \<lparr>iv_namePtr = ''a'', iv_fullNamePtr = ''::Base::a'', iv_iclsPtr = ''::Base'',
           iv_protection = ITCL_PUBLIC, iv_init = Some (Str ''1''), iv_codePtr = None\<rparr>"

definition varB :: itclVariable where
  "varB = \<lparr>iv_namePtr = ''b'', iv_fullNamePtr = ''::Derived::b'', iv_iclsPtr = ''::Derived'',
           iv_protection = ITCL_PUBLIC, iv_init = Some (Str ''2''),
           iv_codePtr = Some \<lparr>mc_implemented = True, mc_bodyPtr = ''check''\<rparr>\<rparr>"

definition varP :: itclVariable where
  "varP = \<lparr>iv_namePtr = ''p'', iv_fullNamePtr = ''::Derived::p'', iv_iclsPtr = ''::Derived'',
           iv_protection = ITCL_PROTECTED, iv_init = None, iv_codePtr = None\<rparr>"

definition greetBase :: itclMemberFunc where
  "greetBase = \<lparr>im_namePtr = ''greet'', im_fullNamePtr = ''::Base::greet'', im_iclsPtr = ''::Base'',
                im_protection = ITCL_PUBLIC, im_flags = {}, im_usage = None,
                im_body = Some ''return base''\<rparr>"

definition greetDerived :: itclMemberFunc where
  "greetDerived = \<lparr>im_namePtr = ''greet'', im_fullNamePtr = ''::Derived::greet'',
                   im_iclsPtr = ''::Derived'', im_protection = ITCL_PUBLIC, im_flags = {},
                   im_usage = None, im_body = Some ''chain''\<rparr>"

definition classBase :: itclClass where
  "classBase = ItclClass ''::Base'' [] [(''greet'', greetBase)] [(''a'', varA)]
     [(''a'', \<lparr>vl_ivPtr = varA, vl_leastQualName = ''a''\<rparr>),
      (''::Base::a'', \<lparr>vl_ivPtr = varA, vl_leastQualName = ''a''\<rparr>)]
     [] {ITCL_IS_CLASS} 1"

definition classDerived :: itclClass where
  "classDerived = ItclClass ''::Derived'' [classBase] [(''greet'', greetDerived)]
     [(''p'', varP), (''b'', varB)]
     [(''b'', \<lparr>vl_ivPtr = varB, vl_leastQualName = ''b''\<rparr>),
      (''::Derived::b'', \<lparr>vl_ivPtr = varB, vl_leastQualName = ''b''\<rparr>),
      (''p'', \<lparr>vl_ivPtr = varP, vl_leastQualName = ''p''\<rparr>),
      (''::Derived::p'', \<lparr>vl_ivPtr = varP, vl_leastQualName = ''p''\<rparr>),
      (''a'', \<lparr>vl_ivPtr = varA, vl_leastQualName = ''a''\<rparr>),
      (''::Base::a'', \<lparr>vl_ivPtr = varA, vl_leastQualName = ''a''\<rparr>)]
     [] {ITCL_IS_CLASS} 2"

definition objD :: itclObject where
  "objD = \<lparr>io_iclsPtr = classDerived, io_varNsNamePtr = ''::v::d0'', io_accessCmd = ''d0'',
           io_resolvePtr = ''d0''\<rparr>"

text \<open>
  An interpreter in which a method of \<^verbatim>\<open>Derived\<close> runs on the object: \<^verbatim>\<open>a\<close> holds
  its initial value, \<^verbatim>\<open>b\<close> has been unset by a method (\<^verbatim>\<open>unset b\<close>), \<^verbatim>\<open>p\<close> was
  never set, the result is empty.
\<close>

definition interpD :: interp where
  "interpD = \<lparr>vars = [''::v::d0::Base::a'' \<mapsto> ''1''],
              result = Str [],
              errorInfo = [],
              callContext = Some (classDerived, Some objD),
              frameObjv = Some [''d0'', ''greet''],
              frameClientData = True,
              frameNs = ''::Derived'',
              frameResolver = None,
              setRefused = (\<lambda>v. False),
              classes = [(''Base'', classBase), (''Derived'', classDerived), (''W'', widgetW)],
              infoPtr = \<lparr>useOldResolvers = False, currIoPtr = None\<rparr>\<rparr>"

text \<open>
  A widget-style class with a public variable, an object of it, and a configuration
  delegate that answers every call with the words it was given.
\<close>

definition varC :: itclVariable where
  "varC = \<lparr>iv_namePtr = ''c'', iv_fullNamePtr = ''::Wd::c'', iv_iclsPtr = ''::Wd'',
           iv_protection = ITCL_PUBLIC, iv_init = None, iv_codePtr = None\<rparr>"

definition classWidget :: itclClass where
  "classWidget = ItclClass ''::Wd'' [] [] [(''c'', varC)]
     [(''c'', \<lparr>vl_ivPtr = varC, vl_leastQualName = ''c''\<rparr>),
      (''::Wd::c'', \<lparr>vl_ivPtr = varC, vl_leastQualName = ''c''\<rparr>)]
     [(''hull'', \<lparr>ic_namePtr = ''hull''\<rparr>)] {ITCL_WIDGET, ITCL_WIDGET_FRAME} 1"

definition objW :: itclObject where
  "objW = \<lparr>io_iclsPtr = classWidget, io_varNsNamePtr = ''::v::w0'', io_accessCmd = ''w0'',
           io_resolvePtr = ''w0''\<rparr>"

definition interpW :: interp where
  "interpW = interpD\<lparr>callContext := Some (classWidget, Some objW)\<rparr>"

definition delegateW :: widgetConfigure where
  "delegateW iclsPtr ip objv = (TCL_OK, ip\<lparr>result := Lst (map Str objv)\<rparr>)"

text \<open>A class loader that finds nothing, and a config-code evaluator that rejects.\<close>

definition autoloadNone :: "string \<Rightarrow> interp \<Rightarrow> interp" where
  "autoloadNone path ip = ip"

definition evalReject :: "string \<Rightarrow> interp \<Rightarrow> retcode \<times> interp" where
  "evalReject body ip = (TCL_ERROR, ip\<lparr>result := Str ''rejected''\<rparr>)"

text \<open>
  An executor of member code that answers with the words it was called with, and the
  interpreter of the example while \<^verbatim>\<open>Base::greet\<close> runs on the same object.
\<close>

definition evalMemberEcho ::
  "itclMemberFunc \<Rightarrow> itclObject option \<Rightarrow> string list \<Rightarrow> interp \<Rightarrow> retcode \<times> interp" where
  "evalMemberEcho imPtr ioOpt objv ip = (TCL_OK, ip\<lparr>result := Lst (map Str objv)\<rparr>)"

definition interpB :: interp where
  "interpB = interpD\<lparr>callContext := Some (classBase, Some objD),
                      frameObjv := Some [''::Base::greet''], frameClientData := False\<rparr>"

text \<open>
  A class that defines its own \<^verbatim>\<open>isa\<close>, a class derived from it that defines no
  method, before the built-ins are installed, and two hosts: one that binds every
  registration name, one that cannot bind \<^verbatim>\<open>@itcl-builtin-info\<close>.
\<close>

definition classIsaBase :: itclClass where
  "classIsaBase = ItclClass ''::IsaBase'' []
     [(''isa'', \<lparr>im_namePtr = ''isa'', im_fullNamePtr = ''::IsaBase::isa'', im_iclsPtr = ''::IsaBase'',
                 im_protection = ITCL_PUBLIC, im_flags = {}, im_usage = None,
                 im_body = Some ''return 1''\<rparr>)]
     [] [] [] {ITCL_IS_CLASS} 0"

definition classFresh :: itclClass where
  "classFresh = ItclClass ''::Fresh'' [classIsaBase] [] [] [] [] {ITCL_IS_CLASS} 0"

definition boundAll :: "string \<Rightarrow> bool" where
  "boundAll registration = True"

definition boundNoInfo :: "string \<Rightarrow> bool" where
  "boundNoInfo registration = (registration \<noteq> ''@itcl-builtin-info'')"

text \<open>The class after a successful pass, and after the pass that fails at \<^verbatim>\<open>info\<close>.\<close>

definition classFreshInstalled :: itclClass where
  "classFreshInstalled = ItclClass ''::Fresh'' [classIsaBase]
     [(''cget'', builtin_member classFresh (BiMethodList ! 0)),
      (''configure'', builtin_member classFresh (BiMethodList ! 1)),
      (''info'', builtin_member classFresh (BiMethodList ! 2))]
     [] [] [] {ITCL_IS_CLASS} 0"

definition classFreshPartial :: itclClass where
  "classFreshPartial = ItclClass ''::Fresh'' [classIsaBase]
     [(''cget'', builtin_member classFresh (BiMethodList ! 0)),
      (''configure'', builtin_member classFresh (BiMethodList ! 1))]
     [] [] [] {ITCL_IS_CLASS} 0"

text \<open>The interpreter of the example with \<^verbatim>\<open>b\<close> set to 2.\<close>

definition interpD2 :: interp where
  "interpD2 = interpD\<lparr>vars := [''::v::d0::Base::a'' \<mapsto> ''1'', ''::v::d0::Derived::b'' \<mapsto> ''2'']\<rparr>"


text \<open>
  \<^verbatim>\<open>class Two { inherit Base; public variable b 0; public variable f 0 }\<close>, whose
  variable table enumerates \<^verbatim>\<open>f\<close> before \<^verbatim>\<open>b\<close>, an object of it and an interpreter
  in which a method of the class runs on the object.
\<close>

definition varTb :: itclVariable where
  "varTb = \<lparr>iv_namePtr = ''b'', iv_fullNamePtr = ''::Two::b'', iv_iclsPtr = ''::Two'',
            iv_protection = ITCL_PUBLIC, iv_init = Some (Str ''0''), iv_codePtr = None\<rparr>"

definition varTf :: itclVariable where
  "varTf = \<lparr>iv_namePtr = ''f'', iv_fullNamePtr = ''::Two::f'', iv_iclsPtr = ''::Two'',
            iv_protection = ITCL_PUBLIC, iv_init = Some (Str ''0''), iv_codePtr = None\<rparr>"

definition classTwo :: itclClass where
  "classTwo = ItclClass ''::Two'' [classBase] []
     [(''f'', varTf), (''b'', varTb)]
     [(''b'', \<lparr>vl_ivPtr = varTb, vl_leastQualName = ''b''\<rparr>),
      (''::Two::b'', \<lparr>vl_ivPtr = varTb, vl_leastQualName = ''b''\<rparr>),
      (''f'', \<lparr>vl_ivPtr = varTf, vl_leastQualName = ''f''\<rparr>),
      (''::Two::f'', \<lparr>vl_ivPtr = varTf, vl_leastQualName = ''f''\<rparr>),
      (''a'', \<lparr>vl_ivPtr = varA, vl_leastQualName = ''a''\<rparr>),
      (''::Base::a'', \<lparr>vl_ivPtr = varA, vl_leastQualName = ''a''\<rparr>)]
     [] {ITCL_IS_CLASS} 2"

definition objTwo :: itclObject where
  "objTwo = \<lparr>io_iclsPtr = classTwo, io_varNsNamePtr = ''::v::t0'', io_accessCmd = ''t0'',
             io_resolvePtr = ''t0''\<rparr>"

definition interpTwo :: interp where
  "interpTwo = interpD\<lparr>vars := [''::v::t0::Two::b'' \<mapsto> ''0'', ''::v::t0::Two::f'' \<mapsto> ''0'',
                                  ''::v::t0::Base::a'' \<mapsto> ''1''],
                        callContext := Some (classTwo, Some objTwo)\<rparr>"

text \<open>
  Multiple inheritance with a shadowed name:
  \<^verbatim>\<open>class Left { public variable x l }\<close>, \<^verbatim>\<open>class Right { public variable x r }\<close> and
  \<^verbatim>\<open>class Both { inherit Left Right }\<close>. In the resolution table of \<^verbatim>\<open>Both\<close> the
  name \<^verbatim>\<open>x\<close> stands for the variable of \<^verbatim>\<open>Left\<close>, and the least-qualified name of
  the variable of \<^verbatim>\<open>Right\<close> is \<^verbatim>\<open>Right::x\<close>.
\<close>

definition varLx :: itclVariable where
  "varLx = \<lparr>iv_namePtr = ''x'', iv_fullNamePtr = ''::Left::x'', iv_iclsPtr = ''::Left'',
            iv_protection = ITCL_PUBLIC, iv_init = Some (Str ''l''), iv_codePtr = None\<rparr>"

definition varRx :: itclVariable where
  "varRx = \<lparr>iv_namePtr = ''x'', iv_fullNamePtr = ''::Right::x'', iv_iclsPtr = ''::Right'',
            iv_protection = ITCL_PUBLIC, iv_init = Some (Str ''r''), iv_codePtr = None\<rparr>"

definition classLeft :: itclClass where
  "classLeft = ItclClass ''::Left'' [] [] [(''x'', varLx)]
     [(''x'', \<lparr>vl_ivPtr = varLx, vl_leastQualName = ''x''\<rparr>),
      (''::Left::x'', \<lparr>vl_ivPtr = varLx, vl_leastQualName = ''x''\<rparr>)]
     [] {ITCL_IS_CLASS} 1"

definition classRight :: itclClass where
  "classRight = ItclClass ''::Right'' [] [] [(''x'', varRx)]
     [(''x'', \<lparr>vl_ivPtr = varRx, vl_leastQualName = ''x''\<rparr>),
      (''::Right::x'', \<lparr>vl_ivPtr = varRx, vl_leastQualName = ''x''\<rparr>)]
     [] {ITCL_IS_CLASS} 1"

definition classBoth :: itclClass where
  "classBoth = ItclClass ''::Both'' [classLeft, classRight] [] []
     [(''x'', \<lparr>vl_ivPtr = varLx, vl_leastQualName = ''x''\<rparr>),
      (''Left::x'', \<lparr>vl_ivPtr = varLx, vl_leastQualName = ''x''\<rparr>),
      (''::Left::x'', \<lparr>vl_ivPtr = varLx, vl_leastQualName = ''x''\<rparr>),
      (''Right::x'', \<lparr>vl_ivPtr = varRx, vl_leastQualName = ''Right::x''\<rparr>),
      (''::Right::x'', \<lparr>vl_ivPtr = varRx, vl_leastQualName = ''Right::x''\<rparr>)]
     [] {ITCL_IS_CLASS} 0"

definition objBoth :: itclObject where
  "objBoth = \<lparr>io_iclsPtr = classBoth, io_varNsNamePtr = ''::v::m0'', io_accessCmd = ''m0'',
              io_resolvePtr = ''m0''\<rparr>"

definition interpBoth :: interp where
  "interpBoth = interpD\<lparr>vars := [''::v::m0::Left::x'' \<mapsto> ''l'', ''::v::m0::Right::x'' \<mapsto> ''7''],
                         callContext := Some (classBoth, Some objBoth)\<rparr>"







section \<open>Properties of the hierarchy iterator\<close>

lemma first_visits_fresh: "x \<in> set (first_visits seen cs) \<Longrightarrow> x \<notin> set seen"
proof (induction cs arbitrary: seen)
  case Nil
  then show ?case by simp
next
  case (Cons c cs)
  show ?case
  proof (cases "c \<in> set seen")
    case True
    with Cons show ?thesis by simp
  next
    case False
    with Cons.prems have "x = c \<or> x \<in> set (first_visits (c # seen) cs)" by simp
    then show ?thesis
    proof
      assume "x = c"
      with False show ?thesis by simp
    next
      assume "x \<in> set (first_visits (c # seen) cs)"
      then have "x \<notin> set (c # seen)" by (rule Cons.IH)
      then show ?thesis by simp
    qed
  qed
qed

lemma first_visits_distinct: "distinct (first_visits seen cs)"
proof (induction cs arbitrary: seen)
  case Nil
  show ?case by simp
next
  case (Cons c cs)
  have "c \<notin> set (first_visits (c # seen) cs)"
    using first_visits_fresh [of c "c # seen" cs] by auto
  with Cons show ?case by simp
qed

lemma preorder_head: "preorder c = c # concat (map preorder (cls_bases c))"
  by (cases c) simp

lemma InitHierIter_head:
  "Itcl_InitHierIter c = c # first_visits [c] (concat (map preorder (cls_bases c)))"
  by (simp add: Itcl_InitHierIter_def preorder_head)

lemma InitHierIter_distinct: "distinct (Itcl_InitHierIter c)"
  by (simp add: Itcl_InitHierIter_def first_visits_distinct)

section \<open>Widget class creation\<close>

text \<open>
  C10. After a successful widget-class creation the class has a component named
  \<^verbatim>\<open>hull\<close> and the widget-frame flag, set by default when the definition chose
  neither frame nor toplevel. The options variable, however, is created under the
  first 11 bytes of the 12-byte literal \<^verbatim>\<open>itcl_options\<close>: for the class of
  \<^verbatim>\<open>itcl::widget W {}\<close> the variable table holds \<^verbatim>\<open>itcl_option\<close> and no
  \<^verbatim>\<open>itcl_options\<close>.
\<close>

theorem Itcl_WidgetCmd_options_name:
  "Itcl_WidgetCmd baseCmdW (\<lambda>c. []) [''widget'', ''W'', ''''] =
     (TCL_OK, Some (ItclClass ''::W'' [] []
        [(''itcl_option'', \<lparr>iv_namePtr = ''itcl_option'', iv_fullNamePtr = ''::W::itcl_option'',
            iv_iclsPtr = ''::W'', iv_protection = ITCL_PROTECTED, iv_init = None, iv_codePtr = None\<rparr>)]
        [] [(''hull'', \<lparr>ic_namePtr = ''hull''\<rparr>)] {ITCL_WIDGET, ITCL_WIDGET_FRAME} 1))"
  by (simp add: Itcl_WidgetCmd_def baseCmdW_def widgetW_def Tcl_NewStringObj_def
      ItclCreateComponent_def Itcl_CreateVariable_def Itcl_BuildVirtualTables_def Let_def
      insert_commute Tcl_CreateHashEntry_def numBuckets_def hash_insert_def hash_chain_def
      bucket_index_def HashObjKey_def upt_rec)

section \<open>cget and configure: lookup, projection and delegation\<close>




text \<open>
  C5. For an option \<open>x\<close> that resolves to a public variable of the object (whose
  full name is in the object's resolution table, as the report asserts), on a class
  without delegation and in any interpreter state, \<^verbatim>\<open>configure -x\<close> returns the
  triple of option name, initial value and current value, and \<^verbatim>\<open>cget -x\<close> returns
  the third element of that triple: the value that the interpreter holds under the
  variable's storage path, or \<^verbatim>\<open><undefined>\<close> when it holds none.
\<close>

theorem cget_equals_configure_current:
  assumes ctx: "callContext ip = Some (cls, Some io)"
      and nodel: "ITCL_IS_CLASS \<in> cls_flags (io_iclsPtr io) \<or> wi = None"
      and look: "map_of (cls_resolveVars (io_iclsPtr io)) x = Some vl"
      and pub: "iv_protection (vl_ivPtr vl) = ITCL_PUBLIC"
      and full: "map_of (cls_resolveVars (io_iclsPtr io)) (iv_fullNamePtr (vl_ivPtr vl)) = Some vl'"
  shows "Itcl_BiConfigureCmd wi ev ip [cmd', CHR ''-'' # x] =
           Inr (TCL_OK, ip\<lparr>result :=
             Lst [Str (''-'' @ vl_leastQualName vl'),
                  (case iv_init (vl_ivPtr vl) of Some objPtr \<Rightarrow> objPtr | None \<Rightarrow> Str ''<undefined>''),
                  (case vars ip (io_varNsNamePtr io @ iv_iclsPtr (vl_ivPtr vl) @ ''::''
                                   @ iv_namePtr (vl_ivPtr vl)) of
                     Some v \<Rightarrow> Str v
                   | None \<Rightarrow> Str ''<undefined>'')]\<rparr>)
       \<and> Itcl_BiCgetCmd wi ip [cmd, CHR ''-'' # x] =
           Inr (TCL_OK, ip\<lparr>result :=
                  (case vars ip (io_varNsNamePtr io @ iv_iclsPtr (vl_ivPtr vl) @ ''::''
                                   @ iv_namePtr (vl_ivPtr vl)) of
                     Some v \<Rightarrow> Str v
                   | None \<Rightarrow> Str ''<undefined>'')\<rparr>)"
  using assms
  by (auto simp add: Itcl_BiCgetCmd_def Itcl_BiConfigureCmd_def Itcl_GetContext_def
      ItclReportPublicOpt_def Itcl_GetInstanceVar_def Tcl_GetVar2_def Tcl_SetObjResult_def
      value_or_undefined_def instanceVarName_def split: option.splits)

theorem cget_equals_configure_current_witness:
  "callContext interpD = Some (classDerived, Some objD)
   \<and> map_of (cls_resolveVars (io_iclsPtr objD)) ''a'' = Some \<lparr>vl_ivPtr = varA, vl_leastQualName = ''a''\<rparr>
   \<and> iv_protection varA = ITCL_PUBLIC
   \<and> Itcl_BiConfigureCmd None evalReject interpD [''configure'', ''-a''] =
       Inr (TCL_OK, interpD\<lparr>result := Lst [Str ''-a'', Str ''1'', Str ''1'']\<rparr>)
   \<and> Itcl_BiCgetCmd None interpD [''cget'', ''-a''] = Inr (TCL_OK, interpD\<lparr>result := Str ''1''\<rparr>)
   \<and> Itcl_BiConfigureCmd None evalReject interpD2 [''configure'', ''-b''] =
       Inr (TCL_OK, interpD2\<lparr>result := Lst [Str ''-b'', Str ''2'', Str ''2'']\<rparr>)
   \<and> Itcl_BiCgetCmd None interpD2 [''cget'', ''-b''] = Inr (TCL_OK, interpD2\<lparr>result := Str ''2''\<rparr>)
   \<and> Itcl_BiConfigureCmd None evalReject interpD [''configure'', ''-b''] =
       Inr (TCL_OK, interpD\<lparr>result := Lst [Str ''-b'', Str ''2'', Str ''<undefined>'']\<rparr>)
   \<and> Itcl_BiCgetCmd None interpD [''cget'', ''-b''] =
       Inr (TCL_OK, interpD\<lparr>result := Str ''<undefined>''\<rparr>)"
proof -
  let ?vlA = "\<lparr>vl_ivPtr = varA, vl_leastQualName = ''a''\<rparr>"
  let ?vlB = "\<lparr>vl_ivPtr = varB, vl_leastQualName = ''b''\<rparr>"
  have ctx: "callContext interpD = Some (classDerived, Some objD)"
    and ctx2: "callContext interpD2 = Some (classDerived, Some objD)"
    by (simp_all add: interpD_def interpD2_def)
  have nodel: "ITCL_IS_CLASS \<in> cls_flags (io_iclsPtr objD) \<or> (None :: widgetConfigure option) = None"
    by simp
  have vs: "vars interpD = [''::v::d0::Base::a'' \<mapsto> ''1'']"
    "vars interpD2 = [''::v::d0::Base::a'' \<mapsto> ''1'', ''::v::d0::Derived::b'' \<mapsto> ''2'']"
    by (simp_all add: interpD_def interpD2_def)
  have ns: "io_varNsNamePtr objD = ''::v::d0''"
    by (simp add: objD_def)
  have lookA: "map_of (cls_resolveVars (io_iclsPtr objD)) ''a'' = Some ?vlA"
    and lookB: "map_of (cls_resolveVars (io_iclsPtr objD)) ''b'' = Some ?vlB"
    by (simp_all add: objD_def classDerived_def)
  have pubA: "iv_protection (vl_ivPtr ?vlA) = ITCL_PUBLIC"
    and pubB: "iv_protection (vl_ivPtr ?vlB) = ITCL_PUBLIC"
    by (simp_all add: varA_def varB_def)
  have fullA: "map_of (cls_resolveVars (io_iclsPtr objD)) (iv_fullNamePtr (vl_ivPtr ?vlA)) = Some ?vlA"
    and fullB: "map_of (cls_resolveVars (io_iclsPtr objD)) (iv_fullNamePtr (vl_ivPtr ?vlB)) = Some ?vlB"
    by (simp_all add: objD_def classDerived_def varA_def varB_def)
  have a: "Itcl_BiConfigureCmd None evalReject interpD [''configure'', CHR ''-'' # ''a''] =
          Inr (TCL_OK, interpD\<lparr>result := Lst [Str ''-a'', Str ''1'', Str ''1'']\<rparr>)
      \<and> Itcl_BiCgetCmd None interpD [''cget'', CHR ''-'' # ''a''] =
          Inr (TCL_OK, interpD\<lparr>result := Str ''1''\<rparr>)"
    using cget_equals_configure_current [OF ctx nodel lookA pubA fullA,
        of evalReject "''configure''" "''cget''"]
    by (simp add: vs ns varA_def)
  have b2: "Itcl_BiConfigureCmd None evalReject interpD2 [''configure'', CHR ''-'' # ''b''] =
          Inr (TCL_OK, interpD2\<lparr>result := Lst [Str ''-b'', Str ''2'', Str ''2'']\<rparr>)
      \<and> Itcl_BiCgetCmd None interpD2 [''cget'', CHR ''-'' # ''b''] =
          Inr (TCL_OK, interpD2\<lparr>result := Str ''2''\<rparr>)"
    using cget_equals_configure_current [OF ctx2 nodel lookB pubB fullB,
        of evalReject "''configure''" "''cget''"]
    by (simp add: vs ns varB_def)
  have b: "Itcl_BiConfigureCmd None evalReject interpD [''configure'', CHR ''-'' # ''b''] =
          Inr (TCL_OK, interpD\<lparr>result := Lst [Str ''-b'', Str ''2'', Str ''<undefined>'']\<rparr>)
      \<and> Itcl_BiCgetCmd None interpD [''cget'', CHR ''-'' # ''b''] =
          Inr (TCL_OK, interpD\<lparr>result := Str ''<undefined>''\<rparr>)"
    using cget_equals_configure_current [OF ctx nodel lookB pubB fullB,
        of evalReject "''configure''" "''cget''"]
    by (simp add: vs ns varB_def)
  from ctx lookA pubA a b2 b show ?thesis by simp
qed

text \<open>
  C7, as the code has it. On a call with an object context whose class is not a plain
  class and has a configuration delegate, every \<^verbatim>\<open>configure\<close> call, and every
  \<^verbatim>\<open>cget\<close> call with exactly one argument, is forwarded to the delegate with the
  class, the interpreter and all words of the call, and the delegate's result is
  returned as it is; the built-in logic does not run. On a plain class the delegate is
  not consulted and the built-in logic runs (the command without a delegate). A
  \<^verbatim>\<open>cget\<close> call with any other number of arguments is answered with the usage error,
  whatever the class and the delegate are.
\<close>

theorem delegate_forwarding:
  assumes ctx: "callContext ip = Some (cls, Some io)"
  shows \<open>Itcl_BiConfigureCmd (Some d) ev ip objv =
           (if ITCL_IS_CLASS \<in> cls_flags (io_iclsPtr io) then Itcl_BiConfigureCmd None ev ip objv
            else Inr (d (io_iclsPtr io) ip objv))
       \<and> Itcl_BiCgetCmd (Some d) ip [cmd, opt] =
           (if ITCL_IS_CLASS \<in> cls_flags (io_iclsPtr io) then Itcl_BiCgetCmd None ip [cmd, opt]
            else Inr (d (io_iclsPtr io) ip [cmd, opt]))
       \<and> (length words \<noteq> 2 \<longrightarrow>
            Itcl_BiCgetCmd wi ip words =
              Inr (TCL_ERROR,
                   ip\<lparr>result := Str (Tcl_GetString (result ip)
                                       @ ''improper usage: should be "object cget -option"'')\<rparr>))\<close>
  using ctx
  by (simp add: Itcl_BiCgetCmd_def Itcl_BiConfigureCmd_def Itcl_GetContext_def
      Tcl_AppendStringsToObj_def)

theorem delegate_forwarding_witness:
  \<open>callContext interpW = Some (classWidget, Some objW)
   \<and> Itcl_BiConfigureCmd (Some delegateW) evalReject interpW [''configure'', ''-c'', ''red''] =
       Inr (TCL_OK, interpW\<lparr>result := Lst [Str ''configure'', Str ''-c'', Str ''red'']\<rparr>)
   \<and> Itcl_BiCgetCmd (Some delegateW) interpW [''cget'', ''-c''] =
       Inr (TCL_OK, interpW\<lparr>result := Lst [Str ''cget'', Str ''-c'']\<rparr>)
   \<and> Itcl_BiCgetCmd (Some delegateW) interpW [''cget''] =
       Inr (TCL_ERROR, interpW\<lparr>result := Str ''improper usage: should be "object cget -option"''\<rparr>)
   \<and> Itcl_BiCgetCmd (Some delegateW) interpW [''cget'', ''-c'', ''-d''] =
       Inr (TCL_ERROR, interpW\<lparr>result := Str ''improper usage: should be "object cget -option"''\<rparr>)\<close>
proof -
  have ctx: "callContext interpW = Some (classWidget, Some objW)"
    by (simp add: interpW_def)
  have w: "ITCL_IS_CLASS \<notin> cls_flags (io_iclsPtr objW)"
    by (simp add: objW_def classWidget_def)
  have res: "result interpW = Str []"
    by (simp add: interpW_def interpD_def)
  have fwd: "Itcl_BiConfigureCmd (Some delegateW) evalReject interpW [''configure'', ''-c'', ''red''] =
       Inr (TCL_OK, interpW\<lparr>result := Lst [Str ''configure'', Str ''-c'', Str ''red'']\<rparr>)
   \<and> Itcl_BiCgetCmd (Some delegateW) interpW [''cget'', ''-c''] =
       Inr (TCL_OK, interpW\<lparr>result := Lst [Str ''cget'', Str ''-c'']\<rparr>)"
    using delegate_forwarding [OF ctx, of delegateW evalReject "[''configure'', ''-c'', ''red'']"
        "''cget''" "''-c''" "[]" None] w
    by (simp add: delegateW_def)
  have one: \<open>Itcl_BiCgetCmd (Some delegateW) interpW [''cget''] =
       Inr (TCL_ERROR, interpW\<lparr>result := Str ''improper usage: should be "object cget -option"''\<rparr>)\<close>
    using delegate_forwarding [OF ctx, of delegateW evalReject "[]" "''cget''" "''-c''"
        "[''cget'']" "Some delegateW"]
    by (simp add: res)
  have three: \<open>Itcl_BiCgetCmd (Some delegateW) interpW [''cget'', ''-c'', ''-d''] =
       Inr (TCL_ERROR, interpW\<lparr>result := Str ''improper usage: should be "object cget -option"''\<rparr>)\<close>
    using delegate_forwarding [OF ctx, of delegateW evalReject "[]" "''cget''" "''-c''"
        "[''cget'', ''-c'', ''-d'']" "Some delegateW"]
    by (simp add: res)
  from ctx fwd one three show ?thesis by simp
qed

text \<open>
  C7 as stated fails for \<^verbatim>\<open>cget\<close>: the argument count is checked before the
  delegate is consulted, so a \<^verbatim>\<open>cget\<close> call with two arguments on a delegating
  class is answered with the usage error and is not forwarded.
\<close>

theorem cget_not_forwarded_counterexample:
  \<open>Itcl_BiCgetCmd (Some delegateW) interpW [''cget'', ''-c'', ''-d''] =
      Inr (TCL_ERROR, interpW\<lparr>result := Str ''improper usage: should be "object cget -option"''\<rparr>)
   \<and> Itcl_BiCgetCmd (Some delegateW) interpW [''cget'', ''-c'', ''-d''] \<noteq>
      Inr (delegateW classWidget interpW [''cget'', ''-c'', ''-d''])\<close>
  by (simp add: Itcl_BiCgetCmd_def Itcl_GetContext_def interpW_def interpD_def
      Tcl_AppendStringsToObj_def delegateW_def)

section \<open>isa\<close>

text \<open>
  C8. For an \<^verbatim>\<open>isa\<close> call with an object context and exactly one argument: when the
  class is not in the loaded set, the class loader runs, and when the class is absent
  afterwards too the call fails with \<^verbatim>\<open>TCL_ERROR\<close> (it does not return 0); when the
  class is found, the call succeeds with result 1 if the class is in the heritage of
  the object's class and 0 otherwise.
\<close>

theorem isa_result:
  assumes ctx: "callContext ip = Some (cls, Some io)"
  shows "Itcl_BiIsaCmd autoload ip [cmd, token] =
     (let ip' = (if map_of (classes ip) token = None then autoload token ip else ip)
      in case map_of (classes ip') token of
           None \<Rightarrow> Inr (TCL_ERROR, ip')
         | Some iclsPtr \<Rightarrow>
             Inr (TCL_OK, ip'\<lparr>result :=
               Str (if iclsPtr \<in> set (Itcl_InitHierIter (io_iclsPtr io)) then ''1'' else ''0'')\<rparr>))"
  using ctx
  by (auto simp add: Itcl_BiIsaCmd_def Itcl_GetContext_def Itcl_FindClass_def Itcl_ObjectIsa_def
      Tcl_SetObjResult_def Let_def split: option.splits)

lemma hierarchy_Derived: "Itcl_InitHierIter classDerived = [classDerived, classBase]"
  by (simp add: Itcl_InitHierIter_def classDerived_def classBase_def)

theorem isa_result_witness:
  "callContext interpD = Some (classDerived, Some objD)
   \<and> Itcl_BiIsaCmd autoloadNone interpD [''isa'', ''Nope''] = Inr (TCL_ERROR, interpD)
   \<and> Itcl_BiIsaCmd autoloadNone interpD [''isa'', ''Base''] =
       Inr (TCL_OK, interpD\<lparr>result := Str ''1''\<rparr>)
   \<and> Itcl_BiIsaCmd autoloadNone interpD [''isa'', ''W''] =
       Inr (TCL_OK, interpD\<lparr>result := Str ''0''\<rparr>)"
proof -
  have ctx: "callContext interpD = Some (classDerived, Some objD)"
    by (simp add: interpD_def)
  have cl: "classes interpD = [(''Base'', classBase), (''Derived'', classDerived), (''W'', widgetW)]"
    by (simp add: interpD_def)
  have io: "io_iclsPtr objD = classDerived"
    by (simp add: objD_def)
  have w: "widgetW \<noteq> classDerived" "widgetW \<noteq> classBase"
    by (simp_all add: widgetW_def classDerived_def classBase_def)
  have a: "Itcl_BiIsaCmd autoloadNone interpD [''isa'', ''Nope''] = Inr (TCL_ERROR, interpD)"
    using isa_result [OF ctx, of autoloadNone "''isa''" "''Nope''"]
    by (simp add: cl autoloadNone_def)
  have b: "Itcl_BiIsaCmd autoloadNone interpD [''isa'', ''Base''] =
             Inr (TCL_OK, interpD\<lparr>result := Str ''1''\<rparr>)"
    using isa_result [OF ctx, of autoloadNone "''isa''" "''Base''"]
    by (simp add: cl io hierarchy_Derived)
  have c: "Itcl_BiIsaCmd autoloadNone interpD [''isa'', ''W''] =
             Inr (TCL_OK, interpD\<lparr>result := Str ''0''\<rparr>)"
    using isa_result [OF ctx, of autoloadNone "''isa''" "''W''"] w
    by (simp add: cl io hierarchy_Derived)
  from ctx a b c show ?thesis by simp
qed

section \<open>chain\<close>

lemma chain_find_none:
  "(\<forall>k \<in> set hier. map_of (cls_functions k) cmd = None) \<Longrightarrow> chain_find cmd hier = None"
  by (induction hier) auto

lemma chain_find_first:
  "(\<forall>c \<in> set pre. map_of (cls_functions c) cmd = None) \<Longrightarrow>
   map_of (cls_functions k) cmd = Some im \<Longrightarrow> chain_find cmd (pre @ k # post) = Some im"
  by (induction pre) auto

lemma chain_skip_split: "cls \<notin> set before \<Longrightarrow> chain_skip cls (before @ cls # after) = after"
  by (induction before) auto

lemma chain_path_split:
  assumes hier: "Itcl_InitHierIter (case ioOpt of Some io \<Rightarrow> io_iclsPtr io | None \<Rightarrow> cls)
                   = before @ cls # after"
      and fresh: "cls \<notin> set before"
  shows "chain_path cls ioOpt = after"
proof (cases ioOpt)
  case (Some io)
  with hier fresh show ?thesis by (simp add: chain_path_def chain_skip_split)
next
  case None
  with hier have h: "Itcl_InitHierIter cls = before @ cls # after" by simp
  have "before = []"
  proof (cases before)
    case Nil
    then show ?thesis .
  next
    case (Cons b bs)
    with h have "b = cls" using InitHierIter_head [of cls] by simp
    with Cons fresh show ?thesis by simp
  qed
  with h None show ?thesis by (simp add: chain_path_def)
qed

text \<open>
  C3. A \<^verbatim>\<open>chain\<close> call runs in class \<open>cls\<close>, on an object or (\<open>ioOpt = None\<close>)
  without one; the member that is executing has the name \<open>cmd\<close> read from the call
  frame. The hierarchy of the object's class (of \<open>cls\<close> itself without an object),
  iterated from the most-derived class, reaches \<open>cls\<close> after the classes \<open>before\<close>;
  the search path is what follows \<open>cls\<close>. Its first class \<open>k\<close> whose member table
  has \<open>cmd\<close> supplies the target \<open>im\<close>, which is executed under its fully-qualified
  name followed by all arguments of \<^verbatim>\<open>chain\<close>; the completion code and interpreter
  of that execution are those of \<^verbatim>\<open>chain\<close>. A constructor target runs on the object
  under construction, any other target on the object of the call.
\<close>

theorem chain_invokes_next:
  assumes ctx: "callContext ip = Some (cls, ioOpt)"
      and frame: "frameObjv ip = Some cObjv"
      and idx: "(if frameClientData ip then 1 else 0) < length cObjv"
      and cmd: "cmd = chain_member (cObjv ! (if frameClientData ip then 1 else 0))"
      and hier: "Itcl_InitHierIter (case ioOpt of Some io \<Rightarrow> io_iclsPtr io | None \<Rightarrow> cls)
                   = before @ cls # pre @ k # post"
      and fresh: "cls \<notin> set before"
      and pre: "\<forall>c \<in> set pre. map_of (cls_functions c) cmd = None"
      and k: "map_of (cls_functions k) cmd = Some im"
      and cur: "ITCL_CONSTRUCTOR \<in> im_flags im \<longrightarrow> currIoPtr (infoPtr ip) \<noteq> None"
  shows "chain_path cls ioOpt = pre @ k # post
       \<and> Itcl_BiChainCmd ev ip (c # args) =
           Inr (ev im (if ITCL_CONSTRUCTOR \<in> im_flags im then currIoPtr (infoPtr ip) else ioOpt)
                  (im_fullNamePtr im # args) ip)"
proof -
  have p: "chain_path cls ioOpt = pre @ k # post"
    using hier fresh by (rule chain_path_split)
  have f: "chain_find cmd (chain_path cls ioOpt) = Some im"
    using pre k by (simp add: p chain_find_first)
  show ?thesis
    using ctx frame idx cmd f cur p
    by (auto simp add: Itcl_BiChainCmd_def Itcl_GetContext_def Itcl_CreateArgs_def Let_def)
qed

theorem chain_invokes_next_witness:
  "callContext interpD = Some (classDerived, Some objD)
   \<and> Itcl_InitHierIter (io_iclsPtr objD) = [classDerived, classBase]
   \<and> map_of (cls_functions classBase) ''greet'' = Some greetBase
   \<and> chain_path classDerived (Some objD) = [classBase]
   \<and> Itcl_BiChainCmd evalMemberEcho interpD [''chain'', ''x'', ''y''] =
       Inr (TCL_OK, interpD\<lparr>result := Lst [Str ''::Base::greet'', Str ''x'', Str ''y'']\<rparr>)"
proof -
  have ctx: "callContext interpD = Some (classDerived, Some objD)"
    by (simp add: interpD_def)
  have frame: "frameObjv interpD = Some [''d0'', ''greet'']"
    by (simp add: interpD_def)
  have idx: "(if frameClientData interpD then 1 else 0) < length [''d0'', ''greet'']"
    by (simp add: interpD_def)
  have cmd: "''greet'' = chain_member ([''d0'', ''greet''] ! (if frameClientData interpD then 1 else 0))"
    by (simp add: interpD_def chain_member_def Itcl_ParseNamespPath_def)
  have h0: "Itcl_InitHierIter (io_iclsPtr objD) = [classDerived, classBase]"
    by (simp add: objD_def hierarchy_Derived)
  have hier: "Itcl_InitHierIter (case Some objD of Some io \<Rightarrow> io_iclsPtr io | None \<Rightarrow> classDerived)
                = [] @ classDerived # [] @ classBase # []"
    using h0 by simp
  have fresh: "classDerived \<notin> set []"
    by simp
  have pre: "\<forall>c \<in> set []. map_of (cls_functions c) ''greet'' = None"
    by simp
  have k: "map_of (cls_functions classBase) ''greet'' = Some greetBase"
    by (simp add: classBase_def)
  have cur: "ITCL_CONSTRUCTOR \<in> im_flags greetBase \<longrightarrow> currIoPtr (infoPtr interpD) \<noteq> None"
    by (simp add: greetBase_def)
  have "chain_path classDerived (Some objD) = [] @ classBase # []
      \<and> Itcl_BiChainCmd evalMemberEcho interpD (''chain'' # [''x'', ''y'']) =
          Inr (evalMemberEcho greetBase
                 (if ITCL_CONSTRUCTOR \<in> im_flags greetBase then currIoPtr (infoPtr interpD)
                  else Some objD)
                 (im_fullNamePtr greetBase # [''x'', ''y'']) interpD)"
    by (rule chain_invokes_next [OF ctx frame idx cmd hier fresh pre k cur])
  then have "chain_path classDerived (Some objD) = [classBase]
      \<and> Itcl_BiChainCmd evalMemberEcho interpD [''chain'', ''x'', ''y''] =
          Inr (TCL_OK, interpD\<lparr>result := Lst [Str ''::Base::greet'', Str ''x'', Str ''y'']\<rparr>)"
    by (simp add: evalMemberEcho_def greetBase_def)
  with ctx h0 k show ?thesis by simp
qed

text \<open>
  C6. When no class on the ancestor search path of a \<^verbatim>\<open>chain\<close> call has a member
  of the name that is executing, \<^verbatim>\<open>chain\<close> returns \<^verbatim>\<open>TCL_OK\<close> and leaves the
  interpreter exactly as it found it: no variable, no error information and no result
  is written, so the result is the empty one that the host sets before it invokes a
  command.
\<close>

theorem chain_noop:
  assumes ctx: "callContext ip = Some (cls, ioOpt)"
      and frame: "frameObjv ip = Some cObjv"
      and idx: "(if frameClientData ip then 1 else 0) < length cObjv"
      and cmd: "cmd = chain_member (cObjv ! (if frameClientData ip then 1 else 0))"
      and none: "\<forall>k \<in> set (chain_path cls ioOpt). map_of (cls_functions k) cmd = None"
      and empty: "result ip = Str []"
  shows "Itcl_BiChainCmd ev ip objv = Inr (TCL_OK, ip) \<and> result ip = Str []"
proof -
  have f: "chain_find cmd (chain_path cls ioOpt) = None"
    using none by (rule chain_find_none)
  show ?thesis
    using ctx frame idx cmd f empty
    by (auto simp add: Itcl_BiChainCmd_def Itcl_GetContext_def Let_def)
qed

theorem chain_noop_witness:
  "callContext interpB = Some (classBase, Some objD)
   \<and> chain_path classBase (Some objD) = []
   \<and> result interpB = Str []
   \<and> Itcl_BiChainCmd evalMemberEcho interpB [''chain'', ''x''] = Inr (TCL_OK, interpB)"
proof -
  have ctx: "callContext interpB = Some (classBase, Some objD)"
    by (simp add: interpB_def)
  have frame: "frameObjv interpB = Some [''::Base::greet'']"
    by (simp add: interpB_def)
  have idx: "(if frameClientData interpB then 1 else 0) < length [''::Base::greet'']"
    by (simp add: interpB_def)
  have cmd: "''greet'' = chain_member ([''::Base::greet''] ! (if frameClientData interpB then 1 else 0))"
    by (simp add: interpB_def chain_member_def Itcl_ParseNamespPath_def)
  have path: "chain_path classBase (Some objD) = []"
    by (simp add: chain_path_def objD_def hierarchy_Derived)
      (simp add: classDerived_def classBase_def)
  have none: "\<forall>k \<in> set (chain_path classBase (Some objD)). map_of (cls_functions k) ''greet'' = None"
    by (simp add: path)
  have empty: "result interpB = Str []"
    by (simp add: interpB_def interpD_def)
  have "Itcl_BiChainCmd evalMemberEcho interpB [''chain'', ''x''] = Inr (TCL_OK, interpB)
      \<and> result interpB = Str []"
    by (rule chain_noop [OF ctx frame idx cmd none empty])
  with ctx path show ?thesis by simp
qed

section \<open>Installing the built-in methods\<close>

lemma set_functions_sel [simp]:
  "cls_functions (set_functions c fs) = fs"
  "cls_bases (set_functions c fs) = cls_bases c"
  "cls_fullname (set_functions c fs) = cls_fullname c"
  by (cases c; simp)+

lemma first_visits_set: "set (first_visits seen cs) = set cs - set seen"
  by (induction cs arbitrary: seen) auto

lemma InitHierIter_set:
  "set (Itcl_InitHierIter c) = insert c (set (concat (map preorder (cls_bases c))))"
  by (auto simp add: InitHierIter_head first_visits_set)

lemma find_in_hier_Cons: "find_in_hier n (x # xs) e = chain_find n (x # xs)"
proof -
  have "find_in_hier n ys None = chain_find n ys" for ys
    by (induction ys) (auto split: option.splits)
  then show ?thesis by (simp split: option.splits)
qed

lemma chain_find_None_iff:
  "chain_find n hier = None \<longleftrightarrow> (\<forall>k \<in> set hier. map_of (cls_functions k) n = None)"
  by (induction hier) (auto split: option.splits)

lemma find_in_hier_None_iff:
  "find_in_hier n (Itcl_InitHierIter c) e = None \<longleftrightarrow> \<not> defined_in_hierarchy n c"
proof -
  have "find_in_hier n (Itcl_InitHierIter c) e = chain_find n (Itcl_InitHierIter c)"
    by (simp only: InitHierIter_head [of c] find_in_hier_Cons)
  then show ?thesis
    by (simp add: chain_find_None_iff defined_in_hierarchy_def)
qed

lemma defined_in_hierarchy_iff:
  "defined_in_hierarchy n c \<longleftrightarrow>
     map_of (cls_functions c) n \<noteq> None
     \<or> (\<exists>k \<in> set (concat (map preorder (cls_bases c))). map_of (cls_functions k) n \<noteq> None)"
  by (auto simp add: defined_in_hierarchy_def InitHierIter_set)

lemma builtin_member_cong:
  "cls_fullname c1 = cls_fullname c \<Longrightarrow> builtin_member c1 b = builtin_member c b"
  by (simp add: builtin_member_def)

lemma CreateMethod_cases:
  assumes "\<not> defined_in_hierarchy (bi_name b) c"
  shows "Itcl_CreateMethod bound c (bi_name b) (bi_usage b) (bi_registration b) =
           (if bound (bi_registration b)
            then (TCL_OK, set_functions c (cls_functions c @ [(bi_name b, builtin_member c b)]))
            else (TCL_ERROR, c))"
  using assms by (simp add: Itcl_CreateMethod_def defined_in_hierarchy_iff builtin_member_def)

lemma install_loop_step:
  "install_loop bound (b # bs) e c =
     (if defined_in_hierarchy (bi_name b) c then install_loop bound bs (find_in_hier (bi_name b) (Itcl_InitHierIter c) e) c
      else if bound (bi_registration b)
           then install_loop bound bs None
                  (set_functions c (cls_functions c @ [(bi_name b, builtin_member c b)]))
           else (TCL_ERROR, c))"
proof (cases "defined_in_hierarchy (bi_name b) c")
  case True
  then obtain y where "find_in_hier (bi_name b) (Itcl_InitHierIter c) e = Some y"
    using find_in_hier_None_iff [of "bi_name b" c e] by auto
  with True show ?thesis by (simp add: Let_def)
next
  case False
  then have "find_in_hier (bi_name b) (Itcl_InitHierIter c) e = None"
    by (simp add: find_in_hier_None_iff)
  with False show ?thesis by (simp add: Let_def CreateMethod_cases)
qed

declare install_loop.simps(2) [simp del]

lemma install_loop_entry: "install_loop bound bs e c = install_loop bound bs None c"
proof (induction bs arbitrary: e c)
  case Nil
  show ?case by simp
next
  case (Cons b bs)
  have a: "install_loop bound bs (find_in_hier (bi_name b) (Itcl_InitHierIter c) e) c =
             install_loop bound bs None c"
    by (rule Cons.IH)
  have b: "install_loop bound bs (find_in_hier (bi_name b) (Itcl_InitHierIter c) None) c =
             install_loop bound bs None c"
    by (rule Cons.IH)
  show ?case
    by (simp only: install_loop_step a b)
qed

lemma map_of_snoc_other: "n' \<noteq> n \<Longrightarrow> map_of (fs @ [(n, m)]) n' = map_of fs n'"
  by (induction fs) auto

lemma map_of_snoc_new: "map_of fs n = None \<Longrightarrow> map_of (fs @ [(n, m)]) n = Some m"
  by (induction fs) (auto split: if_splits)

lemma defined_after_create:
  "n' \<noteq> n \<Longrightarrow>
   defined_in_hierarchy n' (set_functions c (cls_functions c @ [(n, m)])) = defined_in_hierarchy n' c"
  by (simp add: defined_in_hierarchy_iff map_of_snoc_other del: map_of_append)

lemma install_loop_success:
  assumes "distinct (map bi_name bs)" and "install_loop bound bs e c = (TCL_OK, c')"
  shows "cls_bases c' = cls_bases c \<and> cls_fullname c' = cls_fullname c
     \<and> (\<forall>n. n \<notin> bi_name ` set bs \<longrightarrow> map_of (cls_functions c') n = map_of (cls_functions c) n)
     \<and> (\<forall>b \<in> set bs. map_of (cls_functions c') (bi_name b) =
           (if defined_in_hierarchy (bi_name b) c then map_of (cls_functions c) (bi_name b)
            else Some (builtin_member c b)))"
  using assms
proof (induction bs arbitrary: e c)
  case Nil
  then show ?case by simp
next
  case (Cons b bs)
  from Cons.prems(1) have d: "distinct (map bi_name bs)" and nb: "bi_name b \<notin> bi_name ` set bs"
    by auto
  show ?case
  proof (cases "defined_in_hierarchy (bi_name b) c")
    case True
    then have "install_loop bound (b # bs) e c = install_loop bound bs None c"
      by (simp only: install_loop_step if_True
          install_loop_entry [of bound bs "find_in_hier (bi_name b) (Itcl_InitHierIter c) e" c])
    with Cons.prems(2) have run: "install_loop bound bs None c = (TCL_OK, c')"
      by simp
    from Cons.IH [OF d run] nb True show ?thesis by auto
  next
    case False
    let ?c1 = "set_functions c (cls_functions c @ [(bi_name b, builtin_member c b)])"
    from False Cons.prems(2) have bound: "bound (bi_registration b)"
      and run: "install_loop bound bs None ?c1 = (TCL_OK, c')"
      by (simp_all add: install_loop_step split: if_splits)
    from False have none: "map_of (cls_functions c) (bi_name b) = None"
      by (simp add: defined_in_hierarchy_iff)
    have ih: "cls_bases c' = cls_bases ?c1 \<and> cls_fullname c' = cls_fullname ?c1
     \<and> (\<forall>n. n \<notin> bi_name ` set bs \<longrightarrow> map_of (cls_functions c') n = map_of (cls_functions ?c1) n)
     \<and> (\<forall>b' \<in> set bs. map_of (cls_functions c') (bi_name b') =
           (if defined_in_hierarchy (bi_name b') ?c1 then map_of (cls_functions ?c1) (bi_name b')
            else Some (builtin_member ?c1 b')))"
      by (rule Cons.IH [OF d run])
    have frame: "\<forall>n. n \<notin> bi_name ` set (b # bs) \<longrightarrow> map_of (cls_functions c') n = map_of (cls_functions c) n"
    proof (intro allI impI)
      fix n assume "n \<notin> bi_name ` set (b # bs)"
      then have n1: "n \<noteq> bi_name b" and n2: "n \<notin> bi_name ` set bs" by auto
      from ih n2 have "map_of (cls_functions c') n = map_of (cls_functions ?c1) n" by blast
      also have "\<dots> = map_of (cls_functions c) n"
        using n1 by (simp add: map_of_snoc_other del: map_of_append)
      finally show "map_of (cls_functions c') n = map_of (cls_functions c) n" .
    qed
    have here: "map_of (cls_functions c') (bi_name b) = Some (builtin_member c b)"
      using ih nb none by (simp add: map_of_snoc_new del: map_of_append)
    have later: "\<forall>b' \<in> set bs. map_of (cls_functions c') (bi_name b') =
           (if defined_in_hierarchy (bi_name b') c then map_of (cls_functions c) (bi_name b')
            else Some (builtin_member c b'))"
    proof
      fix b' assume b': "b' \<in> set bs"
      with nb have ne: "bi_name b' \<noteq> bi_name b" by (metis imageI)
      have bm: "builtin_member ?c1 b' = builtin_member c b'"
        by (rule builtin_member_cong) simp
      from ih b' have "map_of (cls_functions c') (bi_name b') =
           (if defined_in_hierarchy (bi_name b') ?c1 then map_of (cls_functions ?c1) (bi_name b')
            else Some (builtin_member ?c1 b'))" by blast
      then show "map_of (cls_functions c') (bi_name b') =
           (if defined_in_hierarchy (bi_name b') c then map_of (cls_functions c) (bi_name b')
            else Some (builtin_member c b'))"
        using ne by (simp add: defined_after_create map_of_snoc_other bm del: map_of_append)
    qed
    from ih frame here later False show ?thesis by simp
  qed
qed

lemma install_loop_failure:
  assumes "install_loop bound bs e c = (rc, c')" and "rc \<noteq> TCL_OK"
  shows "\<exists>pre b post. bs = pre @ b # post \<and> install_loop bound pre None c = (TCL_OK, c')
           \<and> \<not> defined_in_hierarchy (bi_name b) c' \<and> \<not> bound (bi_registration b) \<and> rc = TCL_ERROR"
  using assms
proof (induction bs arbitrary: e c)
  case Nil
  then show ?case by simp
next
  case (Cons b bs)
  show ?case
  proof (cases "defined_in_hierarchy (bi_name b) c")
    case True
    then have unf: "install_loop bound (b # bs) e c = install_loop bound bs None c" for e
      by (simp only: install_loop_step if_True
          install_loop_entry [of bound bs "find_in_hier (bi_name b) (Itcl_InitHierIter c) e" c])
    with Cons.prems(1) have run: "install_loop bound bs None c = (rc, c')"
      by simp
    from Cons.IH [OF run Cons.prems(2)] obtain pre b' post where
      s: "bs = pre @ b' # post" and p: "install_loop bound pre None c = (TCL_OK, c')"
      and r: "\<not> defined_in_hierarchy (bi_name b') c'" "\<not> bound (bi_registration b')" "rc = TCL_ERROR"
      by blast
    have "install_loop bound (b # pre) None c = (TCL_OK, c')"
      using True p
      by (simp only: install_loop_step if_True
          install_loop_entry [of bound pre "find_in_hier (bi_name b) (Itcl_InitHierIter c) None" c])
    with s r show ?thesis
      by (metis append_Cons)
  next
    case False
    let ?c1 = "set_functions c (cls_functions c @ [(bi_name b, builtin_member c b)])"
    show ?thesis
    proof (cases "bound (bi_registration b)")
      case True
      with False Cons.prems(1) have run: "install_loop bound bs None ?c1 = (rc, c')"
        by (simp only: install_loop_step if_False if_True)
      from Cons.IH [OF run Cons.prems(2)] obtain pre b' post where
        s: "bs = pre @ b' # post" and p: "install_loop bound pre None ?c1 = (TCL_OK, c')"
        and r: "\<not> defined_in_hierarchy (bi_name b') c'" "\<not> bound (bi_registration b')" "rc = TCL_ERROR"
        by blast
      have "install_loop bound (b # pre) None c = (TCL_OK, c')"
        using False True p by (simp only: install_loop_step if_False if_True)
      with s r show ?thesis
        by (metis append_Cons)
    next
      case nb: False
      with False Cons.prems(1) have "rc = TCL_ERROR" "c' = c"
        by (simp_all add: install_loop_step)
      with False nb have "b # bs = [] @ b # bs \<and> install_loop bound [] None c = (TCL_OK, c')
           \<and> \<not> defined_in_hierarchy (bi_name b) c' \<and> \<not> bound (bi_registration b) \<and> rc = TCL_ERROR"
        by simp
      then show ?thesis by blast
    qed
  qed
qed

lemma defined_in_hierarchy_frame:
  assumes "cls_bases c' = cls_bases c"
      and "map_of (cls_functions c') n = map_of (cls_functions c) n"
  shows "defined_in_hierarchy n c' = defined_in_hierarchy n c"
  using assms by (simp add: defined_in_hierarchy_iff)

lemma BiMethodList_distinct: "distinct (map bi_name BiMethodList)"
  by (simp add: BiMethodList_def)

text \<open>
  C2. Let \<^verbatim>\<open>Itcl_InstallBiMethods\<close> on class \<open>c\<close> return the code \<open>rc\<close> and leave the
  class as \<open>c'\<close>. If it succeeds then, for each of the four built-in names, a member
  function of that name is reachable in the hierarchy of \<open>c'\<close>, and exactly one of two
  cases holds: a function of the name existed somewhere in the hierarchy of \<open>c\<close>, and
  then the built-in is not installed (the class's own entry for the name is as before);
  or none existed, and then the class's entry is the installed built-in. If it fails,
  it fails at a built-in \<open>b\<close> that had to be created and whose creation failed: the
  built-ins before \<open>b\<close> are processed as in a successful pass, and neither \<open>b\<close> nor
  any built-in after it is installed.
\<close>

theorem InstallBiMethods_outcome:
  assumes run: "Itcl_InstallBiMethods bound c = (rc, c')"
  shows "(rc = TCL_OK \<longrightarrow>
            (\<forall>b \<in> set BiMethodList.
               defined_in_hierarchy (bi_name b) c'
               \<and> map_of (cls_functions c') (bi_name b) =
                   (if defined_in_hierarchy (bi_name b) c then map_of (cls_functions c) (bi_name b)
                    else Some (builtin_member c b))))
       \<and> (rc \<noteq> TCL_OK \<longrightarrow>
            (\<exists>pre b post.
               BiMethodList = pre @ b # post
               \<and> install_loop bound pre None c = (TCL_OK, c')
               \<and> \<not> defined_in_hierarchy (bi_name b) c
               \<and> \<not> bound (bi_registration b)
               \<and> rc = TCL_ERROR
               \<and> (\<forall>b' \<in> set (b # post).
                     map_of (cls_functions c') (bi_name b') = map_of (cls_functions c) (bi_name b'))))"
proof (intro conjI impI)
  assume ok: "rc = TCL_OK"
  with run have loop: "install_loop bound BiMethodList None c = (TCL_OK, c')"
    by (simp add: Itcl_InstallBiMethods_def)
  note s0 = install_loop_success [OF BiMethodList_distinct loop]
  from s0 have sb: "cls_bases c' = cls_bases c" by (rule conjunct1)
  from s0 have sm: "\<forall>b \<in> set BiMethodList. map_of (cls_functions c') (bi_name b) =
           (if defined_in_hierarchy (bi_name b) c then map_of (cls_functions c) (bi_name b)
            else Some (builtin_member c b))"
    by (elim conjE)
  show "\<forall>b \<in> set BiMethodList.
          defined_in_hierarchy (bi_name b) c'
          \<and> map_of (cls_functions c') (bi_name b) =
              (if defined_in_hierarchy (bi_name b) c then map_of (cls_functions c) (bi_name b)
               else Some (builtin_member c b))"
  proof
    fix b assume b: "b \<in> set BiMethodList"
    with sm have eq: "map_of (cls_functions c') (bi_name b) =
              (if defined_in_hierarchy (bi_name b) c then map_of (cls_functions c) (bi_name b)
               else Some (builtin_member c b))"
      by (rule bspec)
    have "defined_in_hierarchy (bi_name b) c'"
    proof (cases "defined_in_hierarchy (bi_name b) c")
      case True
      with eq have "map_of (cls_functions c') (bi_name b) = map_of (cls_functions c) (bi_name b)"
        by simp
      with sb True show ?thesis
        using defined_in_hierarchy_frame [of c' c "bi_name b"] by simp
    next
      case False
      with eq show ?thesis
        by (simp add: defined_in_hierarchy_iff)
    qed
    with eq show "defined_in_hierarchy (bi_name b) c'
          \<and> map_of (cls_functions c') (bi_name b) =
              (if defined_in_hierarchy (bi_name b) c then map_of (cls_functions c) (bi_name b)
               else Some (builtin_member c b))"
      by simp
  qed
next
  assume bad: "rc \<noteq> TCL_OK"
  from run have loop: "install_loop bound BiMethodList None c = (rc, c')"
    by (simp add: Itcl_InstallBiMethods_def)
  from install_loop_failure [OF loop bad] obtain pre b post where
    split: "BiMethodList = pre @ b # post"
    and p: "install_loop bound pre None c = (TCL_OK, c')"
    and nd: "\<not> defined_in_hierarchy (bi_name b) c'"
    and nb: "\<not> bound (bi_registration b)" and rc: "rc = TCL_ERROR"
    by (elim exE conjE) (rule that; assumption)
  have "distinct (map bi_name (pre @ b # post))"
    using BiMethodList_distinct by (simp only: split)
  then have dpre: "distinct (map bi_name pre)"
    and out: "\<forall>b' \<in> set (b # post). bi_name b' \<notin> bi_name ` set pre"
    by auto
  note s0 = install_loop_success [OF dpre p]
  from s0 have sb: "cls_bases c' = cls_bases c" by (rule conjunct1)
  from s0 have sf: "\<forall>n. n \<notin> bi_name ` set pre \<longrightarrow>
                      map_of (cls_functions c') n = map_of (cls_functions c) n"
    by (elim conjE)
  have same: "\<forall>b' \<in> set (b # post).
                map_of (cls_functions c') (bi_name b') = map_of (cls_functions c) (bi_name b')"
  proof
    fix b' assume "b' \<in> set (b # post)"
    with out have "bi_name b' \<notin> bi_name ` set pre" by (rule bspec)
    with sf show "map_of (cls_functions c') (bi_name b') = map_of (cls_functions c) (bi_name b')"
      by blast
  qed
  then have "map_of (cls_functions c') (bi_name b) = map_of (cls_functions c) (bi_name b)"
    by simp
  with sb nd have nd0: "\<not> defined_in_hierarchy (bi_name b) c"
    using defined_in_hierarchy_frame [of c' c "bi_name b"] by simp
  from split p nd0 nb rc same
  show "\<exists>pre b post.
               BiMethodList = pre @ b # post
               \<and> install_loop bound pre None c = (TCL_OK, c')
               \<and> \<not> defined_in_hierarchy (bi_name b) c
               \<and> \<not> bound (bi_registration b)
               \<and> rc = TCL_ERROR
               \<and> (\<forall>b' \<in> set (b # post).
                     map_of (cls_functions c') (bi_name b') = map_of (cls_functions c) (bi_name b'))"
    by (intro exI conjI)
qed

lemmas install_eval =
  Itcl_InstallBiMethods_def BiMethodList_def install_loop_step defined_in_hierarchy_iff
  classFresh_def classIsaBase_def builtin_member_def

theorem InstallBiMethods_outcome_witness:
  "Itcl_InstallBiMethods boundAll classFresh = (TCL_OK, classFreshInstalled)
   \<and> defined_in_hierarchy ''isa'' classFresh
   \<and> defined_in_hierarchy ''isa'' classFreshInstalled
   \<and> map_of (cls_functions classFreshInstalled) ''isa'' = None
   \<and> \<not> defined_in_hierarchy ''cget'' classFresh
   \<and> map_of (cls_functions classFreshInstalled) ''cget'' =
        Some (builtin_member classFresh (BiMethodList ! 0))
   \<and> Itcl_InstallBiMethods boundNoInfo classFresh = (TCL_ERROR, classFreshPartial)
   \<and> map_of (cls_functions classFreshPartial) ''info'' = None"
proof -
  have run: "Itcl_InstallBiMethods boundAll classFresh = (TCL_OK, classFreshInstalled)"
    by (simp add: install_eval boundAll_def classFreshInstalled_def del: map_of_append)
  have d_isa: "defined_in_hierarchy ''isa'' classFresh"
    by (simp add: defined_in_hierarchy_iff classFresh_def classIsaBase_def)
  have d_cget: "\<not> defined_in_hierarchy ''cget'' classFresh"
    by (simp add: defined_in_hierarchy_iff classFresh_def classIsaBase_def)
  have own_isa: "map_of (cls_functions classFresh) ''isa'' = None"
    by (simp add: classFresh_def)
  from InstallBiMethods_outcome [OF run]
  have every: "\<forall>b \<in> set BiMethodList.
          defined_in_hierarchy (bi_name b) classFreshInstalled
          \<and> map_of (cls_functions classFreshInstalled) (bi_name b) =
              (if defined_in_hierarchy (bi_name b) classFresh
               then map_of (cls_functions classFresh) (bi_name b)
               else Some (builtin_member classFresh b))"
    by simp
  have m0: "BiMethodList ! 0 \<in> set BiMethodList" "bi_name (BiMethodList ! 0) = ''cget''"
    and m3: "BiMethodList ! 3 \<in> set BiMethodList" "bi_name (BiMethodList ! 3) = ''isa''"
    by (simp_all add: BiMethodList_def)
  from every m3(1) have
    "defined_in_hierarchy (bi_name (BiMethodList ! 3)) classFreshInstalled
     \<and> map_of (cls_functions classFreshInstalled) (bi_name (BiMethodList ! 3)) =
         (if defined_in_hierarchy (bi_name (BiMethodList ! 3)) classFresh
          then map_of (cls_functions classFresh) (bi_name (BiMethodList ! 3))
          else Some (builtin_member classFresh (BiMethodList ! 3)))"
    by (rule bspec)
  with m3(2) d_isa own_isa have isa: "defined_in_hierarchy ''isa'' classFreshInstalled"
    "map_of (cls_functions classFreshInstalled) ''isa'' = None"
    by simp_all
  from every m0(1) have
    "defined_in_hierarchy (bi_name (BiMethodList ! 0)) classFreshInstalled
     \<and> map_of (cls_functions classFreshInstalled) (bi_name (BiMethodList ! 0)) =
         (if defined_in_hierarchy (bi_name (BiMethodList ! 0)) classFresh
          then map_of (cls_functions classFresh) (bi_name (BiMethodList ! 0))
          else Some (builtin_member classFresh (BiMethodList ! 0)))"
    by (rule bspec)
  with m0(2) d_cget have cget: "map_of (cls_functions classFreshInstalled) ''cget'' =
        Some (builtin_member classFresh (BiMethodList ! 0))"
    by simp
  have run2: "Itcl_InstallBiMethods boundNoInfo classFresh = (TCL_ERROR, classFreshPartial)"
    by (simp add: install_eval boundNoInfo_def classFreshPartial_def del: map_of_append)
  have own_info: "map_of (cls_functions classFresh) ''info'' = None"
    by (simp add: classFresh_def)
  from InstallBiMethods_outcome [OF run2]
  obtain pre b post where split: "BiMethodList = pre @ b # post"
    and nb: "\<not> boundNoInfo (bi_registration b)"
    and same: "\<forall>b' \<in> set (b # post).
                 map_of (cls_functions classFreshPartial) (bi_name b') =
                 map_of (cls_functions classFresh) (bi_name b')"
    by auto
  have "b \<in> set (pre @ b # post)" by simp
  then have "b \<in> set BiMethodList" by (simp only: split)
  with nb have "bi_name b = ''info''"
    by (auto simp add: BiMethodList_def boundNoInfo_def)
  with same own_info have info: "map_of (cls_functions classFreshPartial) ''info'' = None"
    by simp
  from run d_isa isa d_cget cget run2 info show ?thesis by simp
qed

section \<open>configure without arguments\<close>

lemma ReportPublicOpt_resolved:
  "map_of (cls_resolveVars (io_iclsPtr io)) (iv_fullNamePtr iv) \<noteq> None \<Longrightarrow>
   ItclReportPublicOpt ip iv io = Inr (option_triple ip io iv)"
  by (auto simp add: ItclReportPublicOpt_def option_triple_def option_name_def
      value_or_undefined_def Itcl_GetInstanceVar_def Tcl_GetVar2_def instanceVarName_def
      split: option.splits)

lemma report_variables_all:
  assumes "\<forall>iv \<in> set (filter (\<lambda>iv. iv_protection iv = ITCL_PUBLIC) (map snd entries)).
             map_of (cls_resolveVars (io_iclsPtr io)) (iv_fullNamePtr iv) \<noteq> None"
  shows "report_variables ip io entries acc =
           Inr (acc @ map (option_triple ip io)
                  (filter (\<lambda>iv. iv_protection iv = ITCL_PUBLIC) (map snd entries)))"
  using assms
proof (induction entries arbitrary: acc)
  case Nil
  show ?case by simp
next
  case (Cons e entries)
  obtain key iv where e: "e = (key, iv)" by (cases e)
  from Cons.prems have rest: "\<forall>iv \<in> set (filter (\<lambda>iv. iv_protection iv = ITCL_PUBLIC) (map snd entries)).
             map_of (cls_resolveVars (io_iclsPtr io)) (iv_fullNamePtr iv) \<noteq> None"
    by simp
  show ?case
  proof (cases "iv_protection iv = ITCL_PUBLIC")
    case True
    with Cons.prems e have "map_of (cls_resolveVars (io_iclsPtr io)) (iv_fullNamePtr iv) \<noteq> None"
      by simp
    then have "ItclReportPublicOpt ip iv io = Inr (option_triple ip io iv)"
      by (rule ReportPublicOpt_resolved)
    with True e show ?thesis
      by (simp add: Cons.IH [OF rest])
  next
    case False
    with e show ?thesis
      by (simp add: Cons.IH [OF rest])
  qed
qed

lemma report_hierarchy_all:
  assumes "\<forall>iv \<in> set (concat (map (\<lambda>k. filter (\<lambda>iv. iv_protection iv = ITCL_PUBLIC)
                                          (map snd (cls_variables k))) hier)).
             map_of (cls_resolveVars (io_iclsPtr io)) (iv_fullNamePtr iv) \<noteq> None"
  shows "report_hierarchy ip io hier acc =
           Inr (acc @ map (option_triple ip io)
                  (concat (map (\<lambda>k. filter (\<lambda>iv. iv_protection iv = ITCL_PUBLIC)
                                       (map snd (cls_variables k))) hier)))"
  using assms
proof (induction hier arbitrary: acc)
  case Nil
  show ?case by simp
next
  case (Cons k hier)
  from Cons.prems have here: "\<forall>iv \<in> set (filter (\<lambda>iv. iv_protection iv = ITCL_PUBLIC)
                                            (map snd (cls_variables k))).
             map_of (cls_resolveVars (io_iclsPtr io)) (iv_fullNamePtr iv) \<noteq> None"
    and rest: "\<forall>iv \<in> set (concat (map (\<lambda>k. filter (\<lambda>iv. iv_protection iv = ITCL_PUBLIC)
                                          (map snd (cls_variables k))) hier)).
             map_of (cls_resolveVars (io_iclsPtr io)) (iv_fullNamePtr iv) \<noteq> None"
    by simp_all
  show ?case
    by (simp add: report_variables_all [OF here] Cons.IH [OF rest])
qed

text \<open>
  The variables of one class, named by declaring class and simple name: no name
  twice, since the table has no key twice.
\<close>

lemma class_variables_keys:
  assumes keys: "distinct (map fst entries)"
      and own: "\<forall>e \<in> set entries. iv_namePtr (snd e) = fst e \<and> iv_iclsPtr (snd e) = owner"
  shows "distinct (map (\<lambda>iv. (iv_iclsPtr iv, iv_namePtr iv))
                    (filter (\<lambda>iv. iv_protection iv = ITCL_PUBLIC) (map snd entries)))
       \<and> fst ` set (map (\<lambda>iv. (iv_iclsPtr iv, iv_namePtr iv))
                     (filter (\<lambda>iv. iv_protection iv = ITCL_PUBLIC) (map snd entries))) \<subseteq> {owner}"
  using assms
proof (induction entries)
  case Nil
  show ?case by simp
next
  case (Cons e entries)
  from Cons.prems have keys': "distinct (map fst entries)" and fresh: "fst e \<notin> fst ` set entries"
    and own': "\<forall>e \<in> set entries. iv_namePtr (snd e) = fst e \<and> iv_iclsPtr (snd e) = owner"
    and here: "iv_namePtr (snd e) = fst e" "iv_iclsPtr (snd e) = owner"
    by simp_all
  note ih = Cons.IH [OF keys' own']
  have new: "(owner, fst e) \<notin> set (map (\<lambda>iv. (iv_iclsPtr iv, iv_namePtr iv))
                    (filter (\<lambda>iv. iv_protection iv = ITCL_PUBLIC) (map snd entries)))"
  proof
    assume "(owner, fst e) \<in> set (map (\<lambda>iv. (iv_iclsPtr iv, iv_namePtr iv))
                    (filter (\<lambda>iv. iv_protection iv = ITCL_PUBLIC) (map snd entries)))"
    then obtain e' where e': "e' \<in> set entries" and n: "iv_namePtr (snd e') = fst e"
      by auto
    from own' e' have "iv_namePtr (snd e') = fst e'" by blast
    with n e' fresh show False by (metis imageI)
  qed
  from ih new here show ?case by simp
qed

lemma hierarchy_variables_keys:
  assumes names: "distinct (map cls_fullname hier)"
      and tables: "\<forall>k \<in> set hier. distinct (map fst (cls_variables k))
                     \<and> (\<forall>e \<in> set (cls_variables k).
                           iv_namePtr (snd e) = fst e \<and> iv_iclsPtr (snd e) = cls_fullname k)"
  shows "distinct (map (\<lambda>iv. (iv_iclsPtr iv, iv_namePtr iv))
                    (concat (map (\<lambda>k. filter (\<lambda>iv. iv_protection iv = ITCL_PUBLIC)
                                         (map snd (cls_variables k))) hier)))
       \<and> fst ` set (map (\<lambda>iv. (iv_iclsPtr iv, iv_namePtr iv))
                     (concat (map (\<lambda>k. filter (\<lambda>iv. iv_protection iv = ITCL_PUBLIC)
                                          (map snd (cls_variables k))) hier)))
           \<subseteq> cls_fullname ` set hier"
  using assms
proof (induction hier)
  case Nil
  show ?case by simp
next
  case (Cons k hier)
  let ?g = "\<lambda>k. map (\<lambda>iv. (iv_iclsPtr iv, iv_namePtr iv))
                   (filter (\<lambda>iv. iv_protection iv = ITCL_PUBLIC) (map snd (cls_variables k)))"
  let ?rest = "map (\<lambda>iv. (iv_iclsPtr iv, iv_namePtr iv))
                 (concat (map (\<lambda>k. filter (\<lambda>iv. iv_protection iv = ITCL_PUBLIC)
                                      (map snd (cls_variables k))) hier))"
  from Cons.prems have names': "distinct (map cls_fullname hier)"
    and fresh: "cls_fullname k \<notin> cls_fullname ` set hier"
    and tables': "\<forall>k \<in> set hier. distinct (map fst (cls_variables k))
                     \<and> (\<forall>e \<in> set (cls_variables k).
                           iv_namePtr (snd e) = fst e \<and> iv_iclsPtr (snd e) = cls_fullname k)"
    and keys: "distinct (map fst (cls_variables k))"
    and own: "\<forall>e \<in> set (cls_variables k).
                iv_namePtr (snd e) = fst e \<and> iv_iclsPtr (snd e) = cls_fullname k"
    by simp_all
  from Cons.IH [OF names' tables'] have d_rest: "distinct ?rest"
    and in_rest: "fst ` set ?rest \<subseteq> cls_fullname ` set hier"
    by simp_all
  from class_variables_keys [OF keys own] have d_here: "distinct (?g k)"
    and in_here: "fst ` set (?g k) \<subseteq> {cls_fullname k}"
    by simp_all
  have apart: "set (?g k) \<inter> set ?rest = {}"
  proof (rule ccontr)
    assume "set (?g k) \<inter> set ?rest \<noteq> {}"
    then obtain p where p1: "p \<in> set (?g k)" and p2: "p \<in> set ?rest" by blast
    from p1 in_here have "fst p = cls_fullname k" by blast
    moreover from p2 in_rest have "fst p \<in> cls_fullname ` set hier" by blast
    ultimately show False using fresh by simp
  qed
  have whole: "map (\<lambda>iv. (iv_iclsPtr iv, iv_namePtr iv))
                 (concat (map (\<lambda>k. filter (\<lambda>iv. iv_protection iv = ITCL_PUBLIC)
                                      (map snd (cls_variables k))) (k # hier))) = ?g k @ ?rest"
    by simp
  have "distinct (?g k @ ?rest)"
    using d_here d_rest apart by simp
  moreover have "fst ` set (?g k @ ?rest) \<subseteq> cls_fullname ` set (k # hier)"
  proof -
    have "fst ` set (?g k @ ?rest) = fst ` set (?g k) \<union> fst ` set ?rest"
      by (simp only: set_append image_Un)
    also have "\<dots> \<subseteq> {cls_fullname k} \<union> cls_fullname ` set hier"
      using in_here in_rest by (rule Un_mono)
    also have "\<dots> = cls_fullname ` set (k # hier)"
      by simp
    finally show ?thesis .
  qed
  ultimately show ?case
    by (simp only: whole)
qed

lemma hierarchy_Both: "Itcl_InitHierIter classBoth = [classBoth, classLeft, classRight]"
  by (simp add: Itcl_InitHierIter_def classBoth_def classLeft_def classRight_def)

lemma hierarchy_Two: "Itcl_InitHierIter classTwo = [classTwo, classBase]"
  by (simp add: Itcl_InitHierIter_def classTwo_def classBase_def)

text \<open>
  C4, as the code has it. An object's class does not delegate; every public variable
  of the hierarchy is in the object's resolution table under its full name, and the
  least-qualified name recorded there resolves to that same variable; the classes of
  the hierarchy have different names; no variable table has a key twice, and its
  variables carry their key as name and the class as declaring class. Then
  \<^verbatim>\<open>configure\<close> without arguments returns one triple (option name, initial value or
  \<^verbatim>\<open><undefined>\<close>, current value or \<^verbatim>\<open><undefined>\<close>) for each public variable of
  each class of the hierarchy: class by class in the order of the hierarchy iterator,
  which starts at the object's own, most-derived class and visits no class twice, and
  within a class in the order in which the hash table of its variables enumerates
  them. No option name is reported twice.
\<close>

theorem configure_lists_public_options:
  assumes ctx: "callContext ip = Some (cls, Some io)"
      and nodel: "ITCL_IS_CLASS \<in> cls_flags (io_iclsPtr io) \<or> wi = None"
      and resolved: "\<forall>iv \<in> set (public_variables (io_iclsPtr io)).
                       \<exists>vl vl'. map_of (cls_resolveVars (io_iclsPtr io)) (iv_fullNamePtr iv) = Some vl
                         \<and> map_of (cls_resolveVars (io_iclsPtr io)) (vl_leastQualName vl) = Some vl'
                         \<and> vl_ivPtr vl' = iv"
      and names: "distinct (map cls_fullname (Itcl_InitHierIter (io_iclsPtr io)))"
      and tables: "\<forall>k \<in> set (Itcl_InitHierIter (io_iclsPtr io)).
                     distinct (map fst (cls_variables k))
                     \<and> (\<forall>e \<in> set (cls_variables k).
                           iv_namePtr (snd e) = fst e \<and> iv_iclsPtr (snd e) = cls_fullname k)"
  shows "Itcl_BiConfigureCmd wi ev ip [cmd] =
           Inr (TCL_OK,
                ip\<lparr>result := Lst (map (option_triple ip io) (public_variables (io_iclsPtr io)))\<rparr>)
       \<and> hd (Itcl_InitHierIter (io_iclsPtr io)) = io_iclsPtr io
       \<and> distinct (Itcl_InitHierIter (io_iclsPtr io))
       \<and> distinct (map (option_name io) (public_variables (io_iclsPtr io)))"
proof -
  let ?pv = "public_variables (io_iclsPtr io)"
  let ?rv = "cls_resolveVars (io_iclsPtr io)"
  have present: "\<forall>iv \<in> set ?pv. map_of ?rv (iv_fullNamePtr iv) \<noteq> None"
    using resolved by fastforce
  have "report_hierarchy ip io (Itcl_InitHierIter (io_iclsPtr io)) [] =
          Inr ([] @ map (option_triple ip io) ?pv)"
    unfolding public_variables_def
    by (rule report_hierarchy_all) (use present in \<open>simp only: public_variables_def\<close>)
  with ctx nodel have run: "Itcl_BiConfigureCmd wi ev ip [cmd] =
           Inr (TCL_OK, ip\<lparr>result := Lst (map (option_triple ip io) ?pv)\<rparr>)"
    by (auto simp add: Itcl_BiConfigureCmd_def Itcl_GetContext_def Tcl_SetObjResult_def)
  have first: "hd (Itcl_InitHierIter (io_iclsPtr io)) = io_iclsPtr io"
    by (simp add: InitHierIter_head [of "io_iclsPtr io"])
  have "distinct (map (\<lambda>iv. (iv_iclsPtr iv, iv_namePtr iv)) ?pv)"
    unfolding public_variables_def
    using hierarchy_variables_keys [OF names tables] by (rule conjunct1)
  then have d: "distinct ?pv"
    by (simp add: distinct_map)
  have inj: "inj_on (option_name io) (set ?pv)"
  proof (rule inj_onI)
    fix iv1 iv2
    assume m1: "iv1 \<in> set ?pv" and m2: "iv2 \<in> set ?pv"
      and eq: "option_name io iv1 = option_name io iv2"
    from resolved m1 obtain vl1 vl1' where
      f1: "map_of ?rv (iv_fullNamePtr iv1) = Some vl1"
      and l1: "map_of ?rv (vl_leastQualName vl1) = Some vl1'" and b1: "vl_ivPtr vl1' = iv1"
      by blast
    from resolved m2 obtain vl2 vl2' where
      f2: "map_of ?rv (iv_fullNamePtr iv2) = Some vl2"
      and l2: "map_of ?rv (vl_leastQualName vl2) = Some vl2'" and b2: "vl_ivPtr vl2' = iv2"
      by blast
    from eq f1 f2 have "vl_leastQualName vl1 = vl_leastQualName vl2"
      by (simp add: option_name_def)
    with l1 l2 have "vl1' = vl2'" by simp
    with b1 b2 show "iv1 = iv2" by simp
  qed
  from d inj have "distinct (map (option_name io) ?pv)"
    by (simp add: distinct_map)
  with run first show ?thesis
    by (simp add: InitHierIter_distinct)
qed

theorem configure_lists_public_options_witness:
  "callContext interpBoth = Some (classBoth, Some objBoth)
   \<and> Itcl_InitHierIter (io_iclsPtr objBoth) = [classBoth, classLeft, classRight]
   \<and> public_variables (io_iclsPtr objBoth) = [varLx, varRx]
   \<and> Itcl_BiConfigureCmd None evalReject interpBoth [''configure''] =
       Inr (TCL_OK, interpBoth\<lparr>result :=
         Lst [Lst [Str ''-x'', Str ''l'', Str ''l''],
              Lst [Str ''-Right::x'', Str ''r'', Str ''7'']]\<rparr>)
   \<and> map (option_name objBoth) (public_variables (io_iclsPtr objBoth)) = [''-x'', ''-Right::x'']
   \<and> distinct (map (option_name objBoth) (public_variables (io_iclsPtr objBoth)))"
proof -
  have ctx: "callContext interpBoth = Some (classBoth, Some objBoth)"
    by (simp add: interpBoth_def)
  have io: "io_iclsPtr objBoth = classBoth" "io_varNsNamePtr objBoth = ''::v::m0''"
    by (simp_all add: objBoth_def)
  have vs: "vars interpBoth = [''::v::m0::Left::x'' \<mapsto> ''l'', ''::v::m0::Right::x'' \<mapsto> ''7'']"
    by (simp add: interpBoth_def)
  have nodel: "ITCL_IS_CLASS \<in> cls_flags (io_iclsPtr objBoth) \<or> (None :: widgetConfigure option) = None"
    by simp
  have hier: "Itcl_InitHierIter (io_iclsPtr objBoth) = [classBoth, classLeft, classRight]"
    by (simp add: io hierarchy_Both)
  have pv: "public_variables (io_iclsPtr objBoth) = [varLx, varRx]"
    by (simp add: public_variables_def hier)
      (simp add: classBoth_def classLeft_def classRight_def varLx_def varRx_def)
  have rv: "cls_resolveVars (io_iclsPtr objBoth) =
     [(''x'', \<lparr>vl_ivPtr = varLx, vl_leastQualName = ''x''\<rparr>),
      (''Left::x'', \<lparr>vl_ivPtr = varLx, vl_leastQualName = ''x''\<rparr>),
      (''::Left::x'', \<lparr>vl_ivPtr = varLx, vl_leastQualName = ''x''\<rparr>),
      (''Right::x'', \<lparr>vl_ivPtr = varRx, vl_leastQualName = ''Right::x''\<rparr>),
      (''::Right::x'', \<lparr>vl_ivPtr = varRx, vl_leastQualName = ''Right::x''\<rparr>)]"
    by (simp add: io classBoth_def)
  have fn: "iv_fullNamePtr varLx = ''::Left::x''" "iv_fullNamePtr varRx = ''::Right::x''"
    by (simp_all add: varLx_def varRx_def)
  have resolved: "\<forall>iv \<in> set (public_variables (io_iclsPtr objBoth)).
                       \<exists>vl vl'. map_of (cls_resolveVars (io_iclsPtr objBoth)) (iv_fullNamePtr iv) = Some vl
                         \<and> map_of (cls_resolveVars (io_iclsPtr objBoth)) (vl_leastQualName vl) = Some vl'
                         \<and> vl_ivPtr vl' = iv"
    by (simp add: pv rv fn)
  have names: "distinct (map cls_fullname (Itcl_InitHierIter (io_iclsPtr objBoth)))"
    by (simp add: hier) (simp add: classBoth_def classLeft_def classRight_def)
  have tables: "\<forall>k \<in> set (Itcl_InitHierIter (io_iclsPtr objBoth)).
                     distinct (map fst (cls_variables k))
                     \<and> (\<forall>e \<in> set (cls_variables k).
                           iv_namePtr (snd e) = fst e \<and> iv_iclsPtr (snd e) = cls_fullname k)"
    by (simp add: hier) (simp add: classBoth_def classLeft_def classRight_def varLx_def varRx_def)
  note t = configure_lists_public_options [OF ctx nodel resolved names tables,
      of evalReject "''configure''"]
  have names_out: "map (option_name objBoth) (public_variables (io_iclsPtr objBoth)) =
                     [''-x'', ''-Right::x'']"
    by (simp add: pv [unfolded io] rv [unfolded io] option_name_def fn io)
  have triples: "map (option_triple interpBoth objBoth) (public_variables (io_iclsPtr objBoth)) =
                   [Lst [Str ''-x'', Str ''l'', Str ''l''],
                    Lst [Str ''-Right::x'', Str ''r'', Str ''7'']]"
    by (simp add: pv [unfolded io] rv [unfolded io] option_triple_def option_name_def fn io vs)
      (simp add: varLx_def varRx_def)
  from t have run: "Itcl_BiConfigureCmd None evalReject interpBoth [''configure''] =
       Inr (TCL_OK, interpBoth\<lparr>result :=
         Lst [Lst [Str ''-x'', Str ''l'', Str ''l''],
              Lst [Str ''-Right::x'', Str ''r'', Str ''7'']]\<rparr>)"
    by (simp only: triples)
  from t have d: "distinct (map (option_name objBoth) (public_variables (io_iclsPtr objBoth)))"
    by (elim conjE)
  from ctx hier pv run names_out d show ?thesis by (intro conjI)
qed

text \<open>
  C4 as stated fails in both orders. \<^verbatim>\<open>Two\<close> inherits from \<^verbatim>\<open>Base\<close>, and its
  variables were created \<^verbatim>\<open>b\<close> first and \<^verbatim>\<open>f\<close> second, which fall into the same
  bucket of the hash table. For an object of \<^verbatim>\<open>Two\<close> the options of the derived
  class are reported before the option \<^verbatim>\<open>-a\<close> of its ancestor, and \<^verbatim>\<open>-f\<close> is
  reported before \<^verbatim>\<open>-b\<close>.
\<close>

theorem configure_order_counterexample:
  "cls_variables classTwo = Tcl_CreateHashEntry (Tcl_CreateHashEntry [] ''b'' varTb) ''f'' varTf
   \<and> Itcl_InitHierIter (io_iclsPtr objTwo) = [classTwo, classBase]
   \<and> Itcl_BiConfigureCmd None evalReject interpTwo [''configure''] =
       Inr (TCL_OK, interpTwo\<lparr>result :=
         Lst [Lst [Str ''-f'', Str ''0'', Str ''0''],
              Lst [Str ''-b'', Str ''0'', Str ''0''],
              Lst [Str ''-a'', Str ''1'', Str ''1'']]\<rparr>)"
proof -
  have created: "cls_variables classTwo =
                   Tcl_CreateHashEntry (Tcl_CreateHashEntry [] ''b'' varTb) ''f'' varTf"
    by (simp add: classTwo_def Tcl_CreateHashEntry_def numBuckets_def hash_insert_def
        hash_chain_def bucket_index_def HashObjKey_def Let_def upt_rec)
  have ctx: "callContext interpTwo = Some (classTwo, Some objTwo)"
    and vs: "vars interpTwo = [''::v::t0::Two::b'' \<mapsto> ''0'', ''::v::t0::Two::f'' \<mapsto> ''0'',
                              ''::v::t0::Base::a'' \<mapsto> ''1'']"
    by (simp_all add: interpTwo_def)
  have io: "io_iclsPtr objTwo = classTwo" "io_varNsNamePtr objTwo = ''::v::t0''"
    by (simp_all add: objTwo_def)
  have rep: "report_hierarchy interpTwo objTwo [classTwo, classBase] [] =
               Inr [Lst [Str ''-f'', Str ''0'', Str ''0''],
                    Lst [Str ''-b'', Str ''0'', Str ''0''],
                    Lst [Str ''-a'', Str ''1'', Str ''1'']]"
    by (simp add: classTwo_def classBase_def varA_def varTb_def varTf_def ItclReportPublicOpt_def
        value_or_undefined_def Itcl_GetInstanceVar_def Tcl_GetVar2_def instanceVarName_def io vs)
  have cl: "ITCL_IS_CLASS \<in> cls_flags classTwo"
    by (simp add: classTwo_def)
  have run: "Itcl_BiConfigureCmd None evalReject interpTwo [''configure''] =
       Inr (TCL_OK, interpTwo\<lparr>result :=
         Lst [Lst [Str ''-f'', Str ''0'', Str ''0''],
              Lst [Str ''-b'', Str ''0'', Str ''0''],
              Lst [Str ''-a'', Str ''1'', Str ''1'']]\<rparr>)"
    by (simp add: Itcl_BiConfigureCmd_def Itcl_GetContext_def ctx io cl hierarchy_Two rep
        Tcl_SetObjResult_def del: report_hierarchy.simps)
  from created run io hierarchy_Two show ?thesis by simp
qed

section \<open>configure with option/value pairs\<close>








end
